theory Spec2Isabelle
  imports Main
begin

section \<open>Python values, faults and WindowedValue objects\<close>

text \<open>
  The embedding follows \<^verbatim>\<open>apache_beam/runners/common.py\<close>. Python objects that
  the file only passes around are values of \<open>pyval\<close>; everything the file mutates is
  a field of an explicit state; every \<^verbatim>\<open>raise\<close> is a value \<open>Inl fault\<close>, returned
  together with the state reached at the moment of the raise.
\<close>

type_synonym timestamp = int
type_synonym addr = nat
type_synonym tracker = nat

datatype window = GlobalWindow | IntervalWindow int int

text \<open>
  Modelled from the spec: the pane metadata of a WindowedValue (its PaneInfo type is
  declared outside this file). \<open>PANE_INFO_UNKNOWN\<close> is the value a WindowedValue
  gets when its constructor is called without a pane_info argument; \<open>PaneInfo n\<close>
  is any other pane.
\<close>

datatype pane_info = PANE_INFO_UNKNOWN | PaneInfo nat

text \<open>
  The default values by which a DoFn method marks its special parameters
  (\<^verbatim>\<open>core.DoFn.ElementParam\<close> and so on). State, timer, restriction and watermark
  estimator parameters carry the name of their spec, provider or estimator.
  \<open>BundleFinalizerParam\<close> is the class object itself, as the source tests it with
  \<^verbatim>\<open>isinstance(d, type)\<close>.
\<close>

datatype param =
    ElementParam
  | SideInputParam
  | TimestampParam
  | WindowParam
  | PaneInfoParam
  | KeyParam
  | BundleFinalizerParam
  | StateParam string
  | TimerParam string
  | RestrictionParam string
  | WatermarkEstimatorParam string

datatype pyval =
    PNone
  | PInt int
  | PStr string
  | PTuple "pyval list"
  | PObj string
  | TaggedOutput pyval pyval
  | TimestampedValue pyval timestamp
  | PRef addr
  | PParam param
  | ArgPlaceholder param
  | ArgumentPlaceholder
  | PWindow window
  | PTimestamp timestamp
  | PPaneInfo pane_info
  | PState string pyval window
  | PTimer string pyval window
  | PBundleFinalizer
  | RestrictionTrackerView tracker
  | PWatermarkEstimator string

text \<open>
  \<open>PRef a\<close> is a reference to the WindowedValue object at address \<open>a\<close>;
  \<open>ArgPlaceholder p\<close> is the placeholder class local to
  \<^verbatim>\<open>PerWindowInvoker.__init__\<close>, \<open>ArgumentPlaceholder\<close> the side-input placeholder
  that callers put in \<^verbatim>\<open>input_args\<close>; \<open>PState\<close> and \<open>PTimer\<close> are the handles
  that \<^verbatim>\<open>user_state_context.get_state(spec, key, window)\<close> and \<^verbatim>\<open>get_timer\<close>
  return.
\<close>

datatype exn_kind =
    ValueError
  | TypeError
  | RuntimeError
  | NotImplementedError
  | KeyError
  | AttributeError
  | IndexError
  | UnboundLocalError
  | Exception
  | UserError string bool

text \<open>
  \<open>UserError name rebuildable\<close> is an exception class of user code;
  \<open>rebuildable\<close> says whether the class can be constructed again from a message
  followed by the remaining arguments and accepts a new attribute. Messages of the
  faults raised in this file are kept as the source's format strings, unformatted;
  the message of a fault that Python itself raises (a missing attribute, a failed
  unpacking) is given in words.
\<close>

record fault =
  exn_kind :: exn_kind
  exn_args :: "pyval list"
  tagged_with_step :: bool

definition new_fault :: "exn_kind \<Rightarrow> string \<Rightarrow> fault" where
  "new_fault k msg = \<lparr>exn_kind = k, exn_args = [PStr msg], tagged_with_step = False\<rparr>"

text \<open>
  Modelled from the spec: the WindowedValue class is imported from
  \<^verbatim>\<open>apache_beam.utils.windowed_value\<close>. Its data model is
  \<open>(value, timestamp, windows, pane_info)\<close>, the windows in the order in which the
  source iterates over them. \<open>windows\<close> is the content of the Python sequence the
  attribute refers to; whether that sequence is a tuple or a list object that other
  WindowedValues refer to as well is recorded in the store (\<open>window_list\<close> below).
\<close>

record windowed_value =
  value_wv :: pyval
  timestamp :: timestamp
  windows :: "window list"
  pane_info :: pane_info

text \<open>
  Modelled from the spec: \<^verbatim>\<open>WindowedValue.with_value\<close>. A result that is not
  re-windowed "inherits the input's window/timestamp/pane unchanged": the new
  object copies them and has the new value.
\<close>

definition with_value :: "windowed_value \<Rightarrow> pyval \<Rightarrow> windowed_value" where
  "with_value wv v = wv\<lparr>value_wv := v\<rparr>"

text \<open>
  Modelled from the spec: the constructor call \<^verbatim>\<open>WindowedValue(value, timestamp,
  windows)\<close> with three arguments, which leaves the pane at the constructor's
  default.
\<close>

definition WindowedValue :: "pyval \<Rightarrow> timestamp \<Rightarrow> window list \<Rightarrow> windowed_value" where
  "WindowedValue v t ws =
     \<lparr>value_wv = v, timestamp = t, windows = ws, pane_info = PANE_INFO_UNKNOWN\<rparr>"

text \<open>
  What a DoFn method returns: \<^verbatim>\<open>None\<close>, a list, a tuple, or a generator that yields
  the given values and then either stops or raises.
\<close>

datatype results =
    ResultsNone
  | ResultsList "pyval list"
  | ResultsTuple "pyval list"
  | ResultsGenerator "pyval list" "fault option"

fun results_items :: "results \<Rightarrow> pyval list" where
  "results_items ResultsNone = []"
| "results_items (ResultsList rs) = rs"
| "results_items (ResultsTuple rs) = rs"
| "results_items (ResultsGenerator rs f) = rs"

fun results_fault :: "results \<Rightarrow> fault option" where
  "results_fault (ResultsGenerator rs f) = f"
| "results_fault r = None"

text \<open>A keyword dictionary: keys are Python values (a key that is no string is
  refused only when the dictionary is passed with \<^verbatim>\<open>**\<close>), in insertion order.\<close>

type_synonym kwargs = "(pyval \<times> pyval) list"

text \<open>One call of the DoFn's process method: the windowed value in scope and the
  arguments passed.\<close>

record invocation =
  in_scope :: windowed_value
  call_args :: "pyval list"
  call_kwargs :: kwargs

text \<open>
  The state outside the invoker object: the store of WindowedValue objects (every
  address below \<open>next_free\<close> is an object already constructed), what each receiver
  was handed (receiver tag, object, and the object's fields at that moment), the
  inputs added to the per-element output counter, the calls made to the process
  method, the element held by the DoFnContext, and the state of user code and of
  the external collaborators.

  The \<^verbatim>\<open>windows\<close> attribute of a WindowedValue refers to a Python sequence.
  \<open>window_list w a\<close> is \<open>None\<close> when the windows of the object \<open>a\<close> are a tuple, and
  \<open>Some l\<close> when they are the list object \<open>l\<close>; objects with the same \<open>l\<close> refer to
  one and the same list, whose content each of them shows in its \<open>windows\<close>. Every
  list object constructed so far has an identity below \<open>next_list\<close>.
\<close>

record 'u world =
  cells :: "addr \<Rightarrow> windowed_value"
  next_free :: addr
  window_list :: "addr \<Rightarrow> nat option"
  next_list :: nat
  received :: "(string option \<times> addr \<times> windowed_value) list"
  counter_inputs :: "nat list"
  invocations :: "invocation list"
  context_element :: "addr option"
  user :: 'u

text \<open>
  The construction of a WindowedValue object with the fields \<open>wv\<close>, whose windows
  are a tuple (\<open>l = None\<close>) or the list object \<open>l\<close>. A copy made by
  \<^verbatim>\<open>with_value\<close> is handed the very sequence object of the original, so it is
  constructed with the original's \<open>window_list\<close>.
\<close>

definition alloc :: "windowed_value \<Rightarrow> nat option \<Rightarrow> 'u world \<Rightarrow> addr \<times> 'u world" where
  "alloc wv l w =
     (next_free w,
      w\<lparr>cells := (cells w)(next_free w := wv),
        window_list := (window_list w)(next_free w := l),
        next_free := Suc (next_free w)\<rparr>)"

section \<open>\_OutputProcessor\<close>

text \<open>
  \<open>window_fn\<close> is \<^verbatim>\<open>window_fn.assign(AssignContext(timestamp, value))\<close>, the
  windowing strategy that the spec gives as \<^verbatim>\<open>assign(timestamp, value) -> set<Window>\<close>:
  a function of its arguments, which builds the windows it returns anew at every
  call, as a list that no other object refers to (for such a sequence a tuple
  behaves alike);
  \<open>tagged_receivers\<close> lists the string keys of the receiver mapping (the main
  receiver is held separately); \<open>per_element_output_counter\<close> is \<open>None\<close> without a
  counter and otherwise its \<^verbatim>\<open>is_cythonized\<close> flag.
\<close>

record OutputProcessor =
  window_fn :: "timestamp \<Rightarrow> pyval \<Rightarrow> window list"
  tagged_receivers :: "string list"
  per_element_output_counter :: "bool option"

definition add_input :: "OutputProcessor \<Rightarrow> nat \<Rightarrow> 'u world \<Rightarrow> 'u world" where
  "add_input op n w =
     (if per_element_output_counter op = Some True
      then w\<lparr>counter_inputs := counter_inputs w @ [n]\<rparr> else w)"

text \<open>The unwrapping of a TaggedOutput: the tag must be a string.\<close>

fun untag :: "pyval \<Rightarrow> fault + (string option \<times> pyval)" where
  "untag (TaggedOutput (PStr s) v) = Inr (Some s, v)"
| "untag (TaggedOutput t v) = Inl (new_fault TypeError ''In %s, tag %s is not a string'')"
| "untag r = Inr (None, r)"

text \<open>
  \<^verbatim>\<open>windowed_value.windows *= n\<close>. On a tuple, \<^verbatim>\<open>*=\<close> builds a new tuple and the
  attribute of this one object is bound to it. On a list, \<^verbatim>\<open>*=\<close> extends the list
  object itself, so that every object whose windows are that list shows the new
  content.
\<close>

definition multiply_windows :: "addr \<Rightarrow> nat \<Rightarrow> 'u world \<Rightarrow> 'u world" where
  "multiply_windows a n w =
     (case window_list w a of
        None \<Rightarrow>
          w\<lparr>cells := (cells w)
                 (a := (cells w a)\<lparr>windows := concat (replicate n (windows (cells w a)))\<rparr>)\<rparr>
      | Some l \<Rightarrow>
          w\<lparr>cells :=
              (\<lambda>c. if window_list w c = Some l
                   then (cells w c)\<lparr>windows := concat (replicate n (windows (cells w a)))\<rparr>
                   else cells w c)\<rparr>)"

text \<open>The \<^verbatim>\<open>isinstance\<close> chain that turns one untagged result into a WindowedValue
  object.\<close>

fun to_windowed_value ::
  "OutputProcessor \<Rightarrow> addr option \<Rightarrow> pyval \<Rightarrow> 'u world \<Rightarrow> (fault + addr) \<times> 'u world" where
  "to_windowed_value op inp (PRef a) w =
     (case inp of
        None \<Rightarrow> (Inr a, w)
      | Some i \<Rightarrow>
          if length (windows (cells w i)) \<noteq> 1
          then (Inr a, multiply_windows a (length (windows (cells w i))) w)
          else (Inr a, w))"
| "to_windowed_value op inp (TimestampedValue v t) w =
     (case alloc (WindowedValue v t (window_fn op t v)) (Some (next_list w))
             (w\<lparr>next_list := Suc (next_list w)\<rparr>) of
        (a, w1) \<Rightarrow>
          (case inp of
             None \<Rightarrow>
               (Inl (new_fault AttributeError
                  ''NoneType object has no attribute windows''), w1)
           | Some i \<Rightarrow>
               if length (windows (cells w1 i)) \<noteq> 1
               then (Inr a, multiply_windows a (length (windows (cells w1 i))) w1)
               else (Inr a, w1)))"
| "to_windowed_value op inp r w =
     (case inp of
        None \<Rightarrow>
          (Inl (new_fault AttributeError
             ''NoneType object has no attribute with_value''), w)
      | Some i \<Rightarrow>
          (case alloc (with_value (cells w i) r) (window_list w i) w of
             (a, w1) \<Rightarrow> (Inr a, w1)))"

definition receive ::
  "OutputProcessor \<Rightarrow> string option \<Rightarrow> addr \<Rightarrow> 'u world \<Rightarrow> (fault + unit) \<times> 'u world" where
  "receive op tag a w =
     (case tag of
        None \<Rightarrow> (Inr (), w\<lparr>received := received w @ [(None, a, cells w a)]\<rparr>)
      | Some s \<Rightarrow>
          if s \<in> set (tagged_receivers op)
          then (Inr (), w\<lparr>received := received w @ [(Some s, a, cells w a)]\<rparr>)
          else (Inl \<lparr>exn_kind = KeyError, exn_args = [PStr s], tagged_with_step = False\<rparr>, w))"

text \<open>One iteration of the loop of \<^verbatim>\<open>process_outputs\<close>.\<close>

definition process_output ::
  "OutputProcessor \<Rightarrow> addr option \<Rightarrow> pyval \<Rightarrow> 'u world \<Rightarrow> (fault + unit) \<times> 'u world" where
  "process_output op inp result w =
     (case untag result of
        Inl f \<Rightarrow> (Inl f, w)
      | Inr (tag, r) \<Rightarrow>
          (case to_windowed_value op inp r w of
             (Inl f, w1) \<Rightarrow> (Inl f, w1)
           | (Inr a, w1) \<Rightarrow> receive op tag a w1))"

fun dispatch_all ::
  "OutputProcessor \<Rightarrow> addr option \<Rightarrow> pyval list \<Rightarrow> 'u world \<Rightarrow> (fault + unit) \<times> 'u world" where
  "dispatch_all op inp [] w = (Inr (), w)"
| "dispatch_all op inp (r # rs) w =
     (case process_output op inp r w of
        (Inl f, w1) \<Rightarrow> (Inl f, w1)
      | (Inr u, w1) \<Rightarrow> dispatch_all op inp rs w1)"

definition process_outputs ::
  "OutputProcessor \<Rightarrow> addr option \<Rightarrow> results \<Rightarrow> 'u world \<Rightarrow> (fault + unit) \<times> 'u world" where
  "process_outputs op inp res w =
     (if res = ResultsNone then (Inr (), add_input op 0 w)
      else
        (case dispatch_all op inp (results_items res) w of
           (Inl f, w1) \<Rightarrow> (Inl f, w1)
         | (Inr u, w1) \<Rightarrow>
             (case results_fault res of
                Some f \<Rightarrow> (Inl f, w1)
              | None \<Rightarrow> (Inr (), add_input op (length (results_items res)) w1))))"

text \<open>
  \<^verbatim>\<open>start_bundle_outputs\<close>: anything but \<^verbatim>\<open>None\<close> is refused. The message is built
  with \<^verbatim>\<open>'... %s' % results\<close>, which itself raises a TypeError when \<^verbatim>\<open>results\<close> is a
  tuple that does not have exactly one item.
\<close>

definition start_bundle_outputs ::
  "OutputProcessor \<Rightarrow> results \<Rightarrow> 'u world \<Rightarrow> (fault + unit) \<times> 'u world" where
  "start_bundle_outputs op res w =
     (if res = ResultsNone then (Inr (), w)
      else
        (case res of
           ResultsTuple rs \<Rightarrow>
             if length rs = 1
             then (Inl (new_fault RuntimeError
                     ''Start Bundle should not output any elements but got %s''), w)
             else if rs = []
             then (Inl (new_fault TypeError ''not enough arguments for format string''), w)
             else (Inl (new_fault TypeError
                     ''not all arguments converted during string formatting''), w)
         | _ \<Rightarrow>
             (Inl (new_fault RuntimeError
                ''Start Bundle should not output any elements but got %s''), w)))"

definition finish_bundle_output ::
  "OutputProcessor \<Rightarrow> pyval \<Rightarrow> 'u world \<Rightarrow> (fault + unit) \<times> 'u world" where
  "finish_bundle_output op result w =
     (case untag result of
        Inl f \<Rightarrow> (Inl f, w)
      | Inr (tag, r) \<Rightarrow>
          (case r of
             PRef a \<Rightarrow> receive op tag a w
           | _ \<Rightarrow>
             (Inl (new_fault RuntimeError
                ''Finish Bundle should only output WindowedValue type but got %s''), w)))"

fun finish_all ::
  "OutputProcessor \<Rightarrow> pyval list \<Rightarrow> 'u world \<Rightarrow> (fault + unit) \<times> 'u world" where
  "finish_all op [] w = (Inr (), w)"
| "finish_all op (r # rs) w =
     (case finish_bundle_output op r w of
        (Inl f, w1) \<Rightarrow> (Inl f, w1)
      | (Inr u, w1) \<Rightarrow> finish_all op rs w1)"

definition finish_bundle_outputs ::
  "OutputProcessor \<Rightarrow> results \<Rightarrow> 'u world \<Rightarrow> (fault + unit) \<times> 'u world" where
  "finish_bundle_outputs op res w =
     (if res = ResultsNone then (Inr (), w)
      else
        (case finish_all op (results_items res) w of
           (Inl f, w1) \<Rightarrow> (Inl f, w1)
         | (Inr u, w1) \<Rightarrow>
             (case results_fault res of
                Some f \<Rightarrow> (Inl f, w1)
              | None \<Rightarrow> (Inr (), w1))))"

section \<open>MethodWrapper and DoFnSignature\<close>

type_synonym kwargs_names = "(string \<times> string) list"

primrec dict_set :: "'k \<Rightarrow> 'v \<Rightarrow> ('k \<times> 'v) list \<Rightarrow> ('k \<times> 'v) list" where
  "dict_set k v [] = [(k, v)]"
| "dict_set k v (p # ps) = (if fst p = k then (k, v) # ps else p # dict_set k v ps)"

text \<open>
  A method as its declaration reads: the names of the positional parameters
  without a default value, then those with one. The defaults of a Python function
  always belong to its last parameters.
\<close>

record method_decl =
  required :: "string list"
  optional :: "(string \<times> pyval) list"

text \<open>
  Modelled from the spec: \<^verbatim>\<open>core.get_function_arguments\<close> is declared in
  \<^verbatim>\<open>apache_beam.transforms.core\<close>. It yields "the method's positional parameter
  names" and the default values of the parameters that have one.
\<close>

definition get_function_arguments :: "method_decl \<Rightarrow> string list \<times> pyval list" where
  "get_function_arguments m = (required m @ map fst (optional m), map snd (optional m))"

record MethodWrapper =
  args :: "string list"
  defaults :: "pyval list"
  has_userstate_arguments :: bool
  state_args_to_replace :: kwargs_names
  timer_args_to_replace :: kwargs_names
  timestamp_arg_name :: "string option"
  window_arg_name :: "string option"
  key_arg_name :: "string option"
  restriction_provider :: "string option"
  restriction_provider_arg_name :: "string option"
  watermark_estimator :: "string option"
  watermark_estimator_arg_name :: "string option"

text \<open>Python's \<^verbatim>\<open>xs[-n:]\<close> for \<open>n \<ge> 0\<close>: the whole list when \<open>n = 0\<close>.\<close>

definition last_n :: "nat \<Rightarrow> 'a list \<Rightarrow> 'a list" where
  "last_n n xs = (if n = 0 then xs else drop (length xs - n) xs)"

text \<open>One iteration of the loop of \<^verbatim>\<open>MethodWrapper.__init__\<close> over the names and
  their default values.\<close>

definition classify :: "MethodWrapper \<Rightarrow> string \<times> pyval \<Rightarrow> MethodWrapper" where
  "classify m kv =
     (case kv of (kw, v) \<Rightarrow>
       (case v of
          PParam (StateParam spec) \<Rightarrow>
            m\<lparr>state_args_to_replace := dict_set kw spec (state_args_to_replace m),
              has_userstate_arguments := True\<rparr>
        | PParam (TimerParam spec) \<Rightarrow>
            m\<lparr>timer_args_to_replace := dict_set kw spec (timer_args_to_replace m),
              has_userstate_arguments := True\<rparr>
        | PParam TimestampParam \<Rightarrow> m\<lparr>timestamp_arg_name := Some kw\<rparr>
        | PParam WindowParam \<Rightarrow> m\<lparr>window_arg_name := Some kw\<rparr>
        | PParam KeyParam \<Rightarrow> m\<lparr>key_arg_name := Some kw\<rparr>
        | PParam (RestrictionParam provider) \<Rightarrow>
            m\<lparr>restriction_provider := Some provider, restriction_provider_arg_name := Some kw\<rparr>
        | PParam (WatermarkEstimatorParam estimator) \<Rightarrow>
            m\<lparr>watermark_estimator := Some estimator, watermark_estimator_arg_name := Some kw\<rparr>
        | _ \<Rightarrow> m))"

definition MethodWrapper_init :: "method_decl \<Rightarrow> MethodWrapper" where
  "MethodWrapper_init d =
     (case get_function_arguments d of
        (a, ds) \<Rightarrow>
          foldl classify
            \<lparr>args = a, defaults = ds, has_userstate_arguments = False,
             state_args_to_replace = [], timer_args_to_replace = [],
             timestamp_arg_name = None, window_arg_name = None, key_arg_name = None,
             restriction_provider = None, restriction_provider_arg_name = None,
             watermark_estimator = None, watermark_estimator_arg_name = None\<rparr>
            (zip (last_n (length ds) a) ds))"

text \<open>
  A DoFn as this file sees it: the declarations of its lifecycle methods, and what
  the \<^verbatim>\<open>userstate\<close> module reports about it (whether it is stateful, its timer specs
  with the declaration of each callback, and the fault, if any, that the checks of
  \<^verbatim>\<open>validate_stateful_dofn\<close> on the state and timer specs themselves raise).
\<close>

record do_fn =
  process_decl :: method_decl
  start_bundle_decl :: method_decl
  finish_bundle_decl :: method_decl
  setup_decl :: method_decl
  teardown_decl :: method_decl
  is_stateful_dofn_userstate :: bool
  timer_specs :: "(string \<times> method_decl) list"
  stateful_spec_fault :: "fault option"

text \<open>
  The four wrappers of restriction provider methods are \<open>None\<close> without a provider
  and otherwise name the provider whose method they wrap.
\<close>

record DoFnSignature =
  do_fn :: do_fn
  process_method :: MethodWrapper
  start_bundle_method :: MethodWrapper
  finish_bundle_method :: MethodWrapper
  setup_lifecycle_method :: MethodWrapper
  teardown_lifecycle_method :: MethodWrapper
  initial_restriction_method :: "string option"
  restriction_coder_method :: "string option"
  create_tracker_method :: "string option"
  split_method :: "string option"
  is_stateful_dofn_field :: bool
  timer_methods :: "(string \<times> MethodWrapper) list"

definition get_restriction_provider :: "DoFnSignature \<Rightarrow> string option" where
  "get_restriction_provider sig = restriction_provider (process_method sig)"

definition get_watermark_estimator :: "DoFnSignature \<Rightarrow> string option" where
  "get_watermark_estimator sig = watermark_estimator (process_method sig)"

definition is_splittable_dofn :: "DoFnSignature \<Rightarrow> bool" where
  "is_splittable_dofn sig \<longleftrightarrow> get_restriction_provider sig \<noteq> None"

definition is_stateful_dofn :: "DoFnSignature \<Rightarrow> bool" where
  "is_stateful_dofn sig \<longleftrightarrow> is_stateful_dofn_field sig"

text \<open>
  \<^verbatim>\<open>_validate_process\<close>. The parameter \<open>param_id\<close> stands for
  \<^verbatim>\<open>isinstance(d, core._DoFnParam)\<close> together with \<^verbatim>\<open>d.param_id\<close> (declared in
  \<^verbatim>\<open>core\<close>): \<open>None\<close> for a default value that is no DoFn parameter.
  \<^verbatim>\<open>len(set(param_ids))\<close> is the length without duplicates.
\<close>

definition validate_process :: "(pyval \<Rightarrow> string option) \<Rightarrow> MethodWrapper \<Rightarrow> fault option" where
  "validate_process param_id m =
     (let param_ids = List.map_filter param_id (defaults m)
      in if length param_ids \<noteq> length (remdups param_ids)
         then Some (new_fault ValueError ''DoFn %r has duplicate process method parameters: %s.'')
         else None)"

text \<open>
  \<^verbatim>\<open>_validate_bundle_method\<close>. The parameter \<open>DoFnProcessParams\<close> is the list
  \<^verbatim>\<open>core.DoFn.DoFnProcessParams\<close> (declared in \<^verbatim>\<open>core\<close>).
\<close>

definition validate_bundle_method :: "pyval list \<Rightarrow> MethodWrapper \<Rightarrow> fault option" where
  "validate_bundle_method DoFnProcessParams m =
     (if \<exists>p \<in> set DoFnProcessParams. p \<in> set (defaults m)
      then Some (new_fault ValueError
             ''DoFn.process() method-only parameter %s cannot be used in %s.'')
      else None)"

text \<open>The methods of a DoFn that bind parameter roles: the five lifecycle methods
  and the timer callbacks.\<close>

definition lifecycle_decls :: "do_fn \<Rightarrow> method_decl list" where
  "lifecycle_decls fn =
     [process_decl fn, start_bundle_decl fn, finish_bundle_decl fn, setup_decl fn,
      teardown_decl fn] @ map snd (timer_specs fn)"

text \<open>
  Modelled from the spec: \<^verbatim>\<open>userstate.validate_stateful_dofn\<close>, which
  \<^verbatim>\<open>_validate_stateful_dofn\<close> calls and which is imported from
  \<^verbatim>\<open>apache_beam.transforms.userstate\<close>. Construction "fails with a SignatureError if:
  the same role appears twice in one method's roles; a process-only role appears in
  start-bundle/finish-bundle; or a restriction-provider/timer-callback is referenced
  but absent". The second check is \<^verbatim>\<open>_validate_bundle_method\<close>; this function makes
  the first one for every method of the DoFn, reading the roles of a method as
  \<^verbatim>\<open>_validate_process\<close> does, and then the checks on the state and timer specs.
\<close>

definition validate_stateful_dofn :: "(pyval \<Rightarrow> string option) \<Rightarrow> do_fn \<Rightarrow> fault option" where
  "validate_stateful_dofn param_id fn =
     (if \<exists>d \<in> set (lifecycle_decls fn).
           \<not> distinct (List.map_filter param_id (defaults (MethodWrapper_init d)))
      then Some (new_fault ValueError ''DoFn %r has duplicate %s method parameters: %s.'')
      else stateful_spec_fault fn)"

text \<open>\<^verbatim>\<open>_validate\<close>: the four checks in the source's order; the first fault wins.\<close>

definition validate ::
  "(pyval \<Rightarrow> string option) \<Rightarrow> pyval list \<Rightarrow> do_fn \<Rightarrow> MethodWrapper \<Rightarrow> MethodWrapper \<Rightarrow>
   MethodWrapper \<Rightarrow> fault option" where
  "validate param_id DoFnProcessParams fn pm sm fm =
     (case validate_process param_id pm of
        Some f \<Rightarrow> Some f
      | None \<Rightarrow>
          (case validate_bundle_method DoFnProcessParams sm of
             Some f \<Rightarrow> Some f
           | None \<Rightarrow>
               (case validate_bundle_method DoFnProcessParams fm of
                  Some f \<Rightarrow> Some f
                | None \<Rightarrow> validate_stateful_dofn param_id fn)))"

text \<open>The fields of a DoFnSignature: the wrappers are built before \<^verbatim>\<open>_validate\<close>
  runs, the stateful part after it.\<close>

definition DoFnSignature_fields :: "do_fn \<Rightarrow> DoFnSignature" where
  "DoFnSignature_fields fn =
     \<lparr>do_fn = fn,
      process_method = MethodWrapper_init (process_decl fn),
      start_bundle_method = MethodWrapper_init (start_bundle_decl fn),
      finish_bundle_method = MethodWrapper_init (finish_bundle_decl fn),
      setup_lifecycle_method = MethodWrapper_init (setup_decl fn),
      teardown_lifecycle_method = MethodWrapper_init (teardown_decl fn),
      initial_restriction_method = restriction_provider (MethodWrapper_init (process_decl fn)),
      restriction_coder_method = restriction_provider (MethodWrapper_init (process_decl fn)),
      create_tracker_method = restriction_provider (MethodWrapper_init (process_decl fn)),
      split_method = restriction_provider (MethodWrapper_init (process_decl fn)),
      is_stateful_dofn_field = is_stateful_dofn_userstate fn,
      timer_methods =
        (if is_stateful_dofn_userstate fn
         then map (\<lambda>(spec, d). (spec, MethodWrapper_init d)) (timer_specs fn)
         else [])\<rparr>"

definition DoFnSignature_init ::
  "(pyval \<Rightarrow> string option) \<Rightarrow> pyval list \<Rightarrow> do_fn \<Rightarrow> fault + DoFnSignature" where
  "DoFnSignature_init param_id DoFnProcessParams fn =
     (case validate param_id DoFnProcessParams fn
             (MethodWrapper_init (process_decl fn))
             (MethodWrapper_init (start_bundle_decl fn))
             (MethodWrapper_init (finish_bundle_decl fn)) of
        Some f \<Rightarrow> Inl f
      | None \<Rightarrow> Inr (DoFnSignature_fields fn))"

section \<open>External collaborators\<close>

text \<open>
  The behaviour of user code and of the collaborators that this file only calls,
  as functions of a state \<open>'u\<close> of their own: the DoFn's methods, the restriction
  provider, the restriction tracker (reached through its thread-safe wrapper), the
  watermark estimator, \<^verbatim>\<open>util.insert_values_in_args\<close> and
  \<^verbatim>\<open>traceback.format_exception_only\<close> (its last line, stripped). Calls into user
  code may raise. A generator returned by a DoFn method is taken with the values
  it yields; running its body is not interleaved with the dispatch of its results.
\<close>

record 'u externals =
  dofn_process :: "pyval list \<Rightarrow> kwargs \<Rightarrow> 'u \<Rightarrow> (fault + results) \<times> 'u"
  dofn_start_bundle :: "'u \<Rightarrow> (fault + results) \<times> 'u"
  dofn_finish_bundle :: "'u \<Rightarrow> (fault + results) \<times> 'u"
  dofn_setup :: "'u \<Rightarrow> (fault + unit) \<times> 'u"
  dofn_teardown :: "'u \<Rightarrow> (fault + unit) \<times> 'u"
  dofn_timer_callback :: "string \<Rightarrow> kwargs \<Rightarrow> 'u \<Rightarrow> (fault + results) \<times> 'u"
  provider_initial_restriction :: "pyval \<Rightarrow> 'u \<Rightarrow> (fault + pyval) \<times> 'u"
  provider_create_tracker :: "pyval \<Rightarrow> 'u \<Rightarrow> (fault + tracker) \<times> 'u"
  provider_restriction_size :: "pyval \<Rightarrow> pyval \<Rightarrow> pyval"
  tracker_try_split :: "tracker \<Rightarrow> pyval \<Rightarrow> 'u \<Rightarrow> (pyval \<times> pyval) option \<times> 'u"
  tracker_check_done :: "tracker \<Rightarrow> 'u \<Rightarrow> (fault + unit) \<times> 'u"
  tracker_deferred_status :: "tracker \<Rightarrow> 'u \<Rightarrow> (pyval \<times> pyval) option"
  tracker_current_progress :: "tracker \<Rightarrow> 'u \<Rightarrow> pyval"
  estimator_reset :: "'u \<Rightarrow> (fault + unit) \<times> 'u"
  estimator_current_watermark :: "'u \<Rightarrow> pyval"
  insert_values_in_args :: "pyval list \<Rightarrow> kwargs \<Rightarrow> pyval list \<Rightarrow> fault + (pyval list \<times> kwargs)"
  format_exception_only :: "fault \<Rightarrow> string"

record side_input_map =
  is_globally_windowed :: bool
  lookup :: "window \<Rightarrow> pyval"

section \<open>DoFnInvoker, SimpleInvoker and PerWindowInvoker\<close>

text \<open>
  \<open>output_processor\<close> is optional, as in the source; \<open>user_state_context\<close> says
  whether a context was given; \<open>bundle_finalizer_param\<close> is the object given, or
  \<open>PNone\<close>. A SimpleInvoker has the fields of the base class only.
\<close>

record DoFnInvoker =
  output_processor :: "OutputProcessor option"
  signature :: DoFnSignature
  user_state_context :: bool
  bundle_finalizer_param :: pyval

record PerWindowInvoker = DoFnInvoker +
  side_inputs :: "side_input_map list"
  context_given :: bool
  has_windowed_inputs :: bool
  is_splittable :: bool
  invoker_watermark_estimator :: "string option"
  watermark_estimator_param :: "string option"
  threadsafe_restriction_tracker :: "tracker option"
  current_windowed_value :: "addr option"
  is_key_param_required :: bool
  cache_globally_windowed_args :: bool
  placeholders :: "(nat \<times> param) list"
  args_for_process :: "pyval list"
  kwargs_for_process :: kwargs

datatype invoker = Simple DoFnInvoker | PerWindow PerWindowInvoker

text \<open>Python's \<^verbatim>\<open>xs[:n]\<close> and \<^verbatim>\<open>xs[n:]\<close> for an integer \<open>n\<close> that may be negative.\<close>

definition py_take :: "int \<Rightarrow> 'a list \<Rightarrow> 'a list" where
  "py_take n xs = (if 0 \<le> n then take (nat n) xs else take (nat (int (length xs) + n)) xs)"

definition py_drop :: "int \<Rightarrow> 'a list \<Rightarrow> 'a list" where
  "py_drop n xs = (if 0 \<le> n then drop (nat n) xs else drop (nat (int (length xs) + n)) xs)"

type_synonym plan_acc = "pyval list \<times> pyval list \<times> bool"

text \<open>\<^verbatim>\<open>args_with_placeholders.append(next(remaining_args_iter))\<close>, with what is done
  when the iterator is exhausted left to the caller.\<close>

definition append_next :: "plan_acc \<Rightarrow> plan_acc option" where
  "append_next acc =
     (case acc of (awp, remaining, kr) \<Rightarrow>
        (case remaining of [] \<Rightarrow> None | x # r \<Rightarrow> Some (awp @ [x], r, kr)))"

definition append_placeholder :: "param \<Rightarrow> plan_acc \<Rightarrow> plan_acc" where
  "append_placeholder p acc =
     (case acc of (awp, remaining, kr) \<Rightarrow> (awp @ [ArgPlaceholder p], remaining, kr))"

text \<open>One iteration of the loop of \<^verbatim>\<open>PerWindowInvoker.__init__\<close> over the names and
  default values of the process method.\<close>

definition plan_step :: "kwargs \<Rightarrow> plan_acc \<Rightarrow> string \<times> pyval \<Rightarrow> fault + plan_acc" where
  "plan_step input_kwargs acc ad =
     (case ad of (a, d) \<Rightarrow>
       (if d = PParam ElementParam then Inr (append_placeholder ElementParam acc)
        else if d = PParam KeyParam then
          (case append_placeholder KeyParam acc of (awp, remaining, kr) \<Rightarrow> Inr (awp, remaining, True))
        else if d = PParam WindowParam then Inr (append_placeholder WindowParam acc)
        else if d = PParam TimestampParam then Inr (append_placeholder TimestampParam acc)
        else if d = PParam PaneInfoParam then Inr (append_placeholder PaneInfoParam acc)
        else if d = PParam SideInputParam then
          (case append_next acc of
             Some acc' \<Rightarrow> Inr acc'
           | None \<Rightarrow>
               if PStr a \<notin> fst ` set input_kwargs
               then Inl (new_fault ValueError ''Value for sideinput %s not provided'')
               else Inr acc)
        else
          (case d of
             PParam (StateParam spec) \<Rightarrow> Inr (append_placeholder (StateParam spec) acc)
           | PParam (TimerParam spec) \<Rightarrow> Inr (append_placeholder (TimerParam spec) acc)
           | PParam BundleFinalizerParam \<Rightarrow> Inr (append_placeholder BundleFinalizerParam acc)
           | _ \<Rightarrow> (case append_next acc of Some acc' \<Rightarrow> Inr acc' | None \<Rightarrow> Inr acc))))"

fun plan_loop :: "kwargs \<Rightarrow> (string \<times> pyval) list \<Rightarrow> plan_acc \<Rightarrow> fault + plan_acc" where
  "plan_loop input_kwargs [] acc = Inr acc"
| "plan_loop input_kwargs (ad # ads) acc =
     (case plan_step input_kwargs acc ad of
        Inl f \<Rightarrow> Inl f
      | Inr acc' \<Rightarrow> plan_loop input_kwargs ads acc')"

fun placeholder_of :: "nat \<times> pyval \<Rightarrow> (nat \<times> param) option" where
  "placeholder_of (i, ArgPlaceholder p) = Some (i, p)"
| "placeholder_of (i, v) = None"

definition PerWindowInvoker_init ::
  "OutputProcessor option \<Rightarrow> DoFnSignature \<Rightarrow> bool \<Rightarrow> side_input_map list \<Rightarrow> pyval list \<Rightarrow>
   kwargs \<Rightarrow> bool \<Rightarrow> pyval \<Rightarrow> fault + PerWindowInvoker" where
  "PerWindowInvoker_init op sig ctx sis input_args input_kwargs usc bfp =
     (let default_arg_values = defaults (process_method sig);
          hwi = (\<not> list_all is_globally_windowed sis
                 \<or> PParam WindowParam \<in> set default_arg_values
                 \<or> is_stateful_dofn sig);
          arg_names = args (process_method sig);
          element_first = (PParam ElementParam \<notin> set default_arg_values);
          args_to_pick =
            (if element_first
             then int (length arg_names) - int (length default_arg_values) - 1
             else int (length arg_names) - int (length default_arg_values));
          start =
            (if element_first
             then [ArgPlaceholder ElementParam] @ py_take args_to_pick input_args
             else py_take args_to_pick input_args)
      in case plan_loop input_kwargs
                (zip (last_n (length default_arg_values) arg_names) default_arg_values)
                (start, py_drop args_to_pick input_args, False) of
           Inl f \<Rightarrow> Inl f
         | Inr (awp, remaining, kr) \<Rightarrow>
             Inr \<lparr>output_processor = op, signature = sig, user_state_context = usc,
                  bundle_finalizer_param = bfp,
                  side_inputs = sis, context_given = ctx,
                  has_windowed_inputs = hwi,
                  is_splittable = is_splittable_dofn sig,
                  invoker_watermark_estimator = get_watermark_estimator sig,
                  watermark_estimator_param =
                    (if get_watermark_estimator sig \<noteq> None
                     then watermark_estimator_arg_name (process_method sig) else None),
                  threadsafe_restriction_tracker = None,
                  current_windowed_value = None,
                  is_key_param_required = kr,
                  cache_globally_windowed_args = (\<not> hwi),
                  placeholders = List.map_filter placeholder_of (enumerate 0 (awp @ remaining)),
                  args_for_process = awp @ remaining,
                  kwargs_for_process = input_kwargs\<rparr>)"

text \<open>\<^verbatim>\<open>DoFnInvoker.create_invoker\<close>; the deprecated context and the other optional
  arguments are passed on as given.\<close>

definition create_invoker ::
  "DoFnSignature \<Rightarrow> OutputProcessor option \<Rightarrow> bool \<Rightarrow> side_input_map list \<Rightarrow> pyval list \<Rightarrow>
   kwargs \<Rightarrow> bool \<Rightarrow> bool \<Rightarrow> pyval \<Rightarrow> fault + invoker" where
  "create_invoker sig op ctx sis input_args input_kwargs process_invocation usc bfp =
     (let default_arg_values = defaults (process_method sig);
          use_simple_invoker =
            (\<not> process_invocation \<or>
             (sis = [] \<and> input_args = [] \<and> input_kwargs = [] \<and> default_arg_values = []
              \<and> \<not> is_stateful_dofn sig))
      in if use_simple_invoker
         then Inr (Simple \<lparr>output_processor = op, signature = sig, user_state_context = False,
                            bundle_finalizer_param = PNone\<rparr>)
         else (case PerWindowInvoker_init op sig ctx sis input_args input_kwargs usc bfp of
                 Inl f \<Rightarrow> Inl f
               | Inr pwi \<Rightarrow> Inr (PerWindow pwi)))"

section \<open>Invoking the process method\<close>

type_synonym deferred = "(addr \<times> pyval) \<times> pyval"
type_synonym split_result = "((addr \<times> pyval) \<times> pyval) \<times> ((addr \<times> pyval) \<times> pyval)"

text \<open>Unpacking a value into exactly two items: a TypeError for a value that
  cannot be iterated, a ValueError for a wrong number of items.\<close>

fun unpack_pair :: "pyval \<Rightarrow> fault + (pyval \<times> pyval)" where
  "unpack_pair (PTuple [x, y]) = Inr (x, y)"
| "unpack_pair (PTuple xs) = Inl (new_fault ValueError ''wrong number of values to unpack'')"
| "unpack_pair (PStr [c, d]) = Inr (PStr [c], PStr [d])"
| "unpack_pair (PStr cs) = Inl (new_fault ValueError ''wrong number of values to unpack'')"
| "unpack_pair v = Inl (new_fault TypeError ''cannot unpack non-iterable object'')"

fun is_str :: "pyval \<Rightarrow> bool" where
  "is_str (PStr s) = True"
| "is_str v = False"

definition log_invocation ::
  "addr \<Rightarrow> pyval list \<Rightarrow> kwargs \<Rightarrow> 'u \<Rightarrow> 'u world \<Rightarrow> 'u world" where
  "log_invocation a as ks u w =
     w\<lparr>invocations :=
         invocations w @ [\<lparr>in_scope = cells w a, call_args = as, call_kwargs = ks\<rparr>],
       user := u\<rparr>"

definition invoke_process_Simple ::
  "'u externals \<Rightarrow> DoFnInvoker \<Rightarrow> addr \<Rightarrow> OutputProcessor option \<Rightarrow> 'u world \<Rightarrow>
   (fault + deferred option) \<times> 'u world" where
  "invoke_process_Simple X self a given_processor w =
     (case (case given_processor of None \<Rightarrow> output_processor self | Some p \<Rightarrow> Some p) of
        None \<Rightarrow>
          (Inl (new_fault AttributeError
             ''NoneType object has no attribute process_outputs''), w)
      | Some opr \<Rightarrow>
          (case dofn_process X [value_wv (cells w a)] [] (user w) of
             (r, u1) \<Rightarrow>
               (case r of
                  Inl f \<Rightarrow> (Inl f, log_invocation a [value_wv (cells w a)] [] u1 w)
                | Inr res \<Rightarrow>
                    (case process_outputs opr (Some a) res
                            (log_invocation a [value_wv (cells w a)] [] u1 w) of
                       (Inl f, w2) \<Rightarrow> (Inl f, w2)
                     | (Inr u, w2) \<Rightarrow> (Inr None, w2)))))"

text \<open>
  The first part of \<^verbatim>\<open>_invoke_process_per_window\<close>: the argument list and keyword
  dictionary of this call, the window in scope (unbound without windowed inputs),
  and whether the two are the invoker's own objects (\<open>True\<close>) or fresh copies.
\<close>

definition prepare_args ::
  "'u externals \<Rightarrow> PerWindowInvoker \<Rightarrow> windowed_value \<Rightarrow> pyval list \<Rightarrow>
   (fault + (pyval list \<times> kwargs \<times> window option \<times> bool)) \<times> PerWindowInvoker" where
  "prepare_args X self wv additional_args =
     (if has_windowed_inputs self then
        (case windows wv of
           [window] \<Rightarrow>
             (case insert_values_in_args X (args_for_process self) (kwargs_for_process self)
                     (map (\<lambda>si. lookup si window) (side_inputs self) @ additional_args) of
                Inl f \<Rightarrow> (Inl f, self)
              | Inr (as, ks) \<Rightarrow> (Inr (as, ks, Some window, False), self))
         | _ \<Rightarrow> (Inl (new_fault ValueError ''wrong number of values to unpack''), self))
      else if cache_globally_windowed_args self then
        (case insert_values_in_args X (args_for_process self) (kwargs_for_process self)
                (map (\<lambda>si. lookup si GlobalWindow) (side_inputs self)) of
           Inl f \<Rightarrow> (Inl f, self\<lparr>cache_globally_windowed_args := False\<rparr>)
         | Inr (as, ks) \<Rightarrow>
             (Inr (as, ks, None, True),
              self\<lparr>cache_globally_windowed_args := False,
                   args_for_process := as, kwargs_for_process := ks\<rparr>))
      else (Inr (args_for_process self, kwargs_for_process self, None, True), self))"

text \<open>The key of a stateful DoFn or of a KeyParam; \<open>Inr None\<close> leaves the local
  variable \<^verbatim>\<open>key\<close> unbound.\<close>

definition extract_key :: "PerWindowInvoker \<Rightarrow> windowed_value \<Rightarrow> fault + pyval option" where
  "extract_key self wv =
     (if user_state_context self \<or> is_key_param_required self then
        (case unpack_pair (value_wv wv) of
           Inl f \<Rightarrow>
             Inl (new_fault ValueError
                (''Input value to a stateful DoFn or KeyParam must be a KV tuple; instead, got ''
                 @ [CHR 0x27] @ ''%s'' @ [CHR 0x27] @ ''.''))
         | Inr (key, unused_value) \<Rightarrow> Inr (Some key))
      else Inr None)"

definition unbound_local :: fault where
  "unbound_local = new_fault UnboundLocalError ''local variable referenced before assignment''"

text \<open>The value written at a placeholder's position; \<open>Inr None\<close> for a placeholder
  that no branch of the source's chain matches.\<close>

definition placeholder_value ::
  "PerWindowInvoker \<Rightarrow> windowed_value \<Rightarrow> pyval option \<Rightarrow> window option \<Rightarrow> param \<Rightarrow>
   fault + pyval option" where
  "placeholder_value self wv key window p =
     (case p of
        ElementParam \<Rightarrow> Inr (Some (value_wv wv))
      | KeyParam \<Rightarrow> (case key of None \<Rightarrow> Inl unbound_local | Some k \<Rightarrow> Inr (Some k))
      | WindowParam \<Rightarrow>
          (case window of None \<Rightarrow> Inl unbound_local | Some wd \<Rightarrow> Inr (Some (PWindow wd)))
      | TimestampParam \<Rightarrow> Inr (Some (PTimestamp (timestamp wv)))
      | PaneInfoParam \<Rightarrow> Inr (Some (PPaneInfo (pane_info wv)))
      | StateParam spec \<Rightarrow>
          if \<not> user_state_context self
          then Inl (new_fault AttributeError ''NoneType object has no attribute get_state'')
          else (case key of
                  None \<Rightarrow> Inl unbound_local
                | Some k \<Rightarrow>
                    (case window of
                       None \<Rightarrow> Inl unbound_local
                     | Some wd \<Rightarrow> Inr (Some (PState spec k wd))))
      | TimerParam spec \<Rightarrow>
          if \<not> user_state_context self
          then Inl (new_fault AttributeError ''NoneType object has no attribute get_timer'')
          else (case key of
                  None \<Rightarrow> Inl unbound_local
                | Some k \<Rightarrow>
                    (case window of
                       None \<Rightarrow> Inl unbound_local
                     | Some wd \<Rightarrow> Inr (Some (PTimer spec k wd))))
      | BundleFinalizerParam \<Rightarrow> Inr (Some (bundle_finalizer_param self))
      | _ \<Rightarrow> Inr None)"

text \<open>The loop over \<^verbatim>\<open>self.placeholders\<close>; on a fault the list keeps what was
  written so far.\<close>

fun fill_placeholders ::
  "PerWindowInvoker \<Rightarrow> windowed_value \<Rightarrow> pyval option \<Rightarrow> window option \<Rightarrow>
   (nat \<times> param) list \<Rightarrow> pyval list \<Rightarrow> fault option \<times> pyval list" where
  "fill_placeholders self wv key window [] as = (None, as)"
| "fill_placeholders self wv key window (ip # ps) as =
     (case placeholder_value self wv key window (snd ip) of
        Inl f \<Rightarrow> (Some f, as)
      | Inr None \<Rightarrow> fill_placeholders self wv key window ps as
      | Inr (Some v) \<Rightarrow>
          if fst ip < length as
          then fill_placeholders self wv key window ps (as[fst ip := v])
          else (Some (new_fault IndexError ''list assignment index out of range''), as))"

definition store_plan :: "bool \<Rightarrow> pyval list \<Rightarrow> kwargs \<Rightarrow> PerWindowInvoker \<Rightarrow> PerWindowInvoker" where
  "store_plan aliased as ks self =
     (if aliased then self\<lparr>args_for_process := as, kwargs_for_process := ks\<rparr> else self)"

definition merge_kwargs :: "kwargs \<Rightarrow> kwargs \<Rightarrow> kwargs" where
  "merge_kwargs additional_kwargs ks = fold (\<lambda>kv. dict_set (fst kv) (snd kv)) additional_kwargs ks"

text \<open>The end of \<^verbatim>\<open>_invoke_process_per_window\<close> for a splittable DoFn.\<close>

definition after_process ::
  "'u externals \<Rightarrow> PerWindowInvoker \<Rightarrow> addr \<Rightarrow> 'u world \<Rightarrow>
   (fault + deferred option) \<times> PerWindowInvoker \<times> 'u world" where
  "after_process X self a w =
     (if is_splittable self then
        (case threadsafe_restriction_tracker self of
           None \<Rightarrow>
             (Inl (new_fault AttributeError
                ''NoneType object has no attribute check_done''), self, w)
         | Some t \<Rightarrow>
             (case tracker_check_done X t (user w) of
                (Inl f, u1) \<Rightarrow> (Inl f, self, w\<lparr>user := u1\<rparr>)
              | (Inr u, u1) \<Rightarrow>
                  (let deferred_status = tracker_deferred_status X t u1;
                       output_watermark =
                         (case invoker_watermark_estimator self of
                            None \<Rightarrow> PNone
                          | Some e \<Rightarrow> estimator_current_watermark X u1)
                   in case deferred_status of
                        None \<Rightarrow> (Inr None, self, w\<lparr>user := u1\<rparr>)
                      | Some (deferred_restriction, deferred_watermark) \<Rightarrow>
                          (let element = value_wv (cells w a);
                               deferred_size =
                                 provider_restriction_size X element deferred_restriction
                           in case alloc (with_value (cells w a)
                                     (PTuple [PTuple [element, deferred_restriction], deferred_size]))
                                     (window_list w a) (w\<lparr>user := u1\<rparr>) of
                                (b, w2) \<Rightarrow>
                                  (Inr (Some ((b, output_watermark), deferred_watermark)),
                                   self, w2)))))
      else (Inr None, self, w))"

text \<open>The call of the process method and the dispatch of its results. The
  attribute \<^verbatim>\<open>output_processor.process_outputs\<close> is looked up before the arguments
  of the call are evaluated, so a missing output processor faults before the DoFn
  is called; \<^verbatim>\<open>**kwargs\<close> refuses a key that is no string.\<close>

definition call_and_emit ::
  "'u externals \<Rightarrow> PerWindowInvoker \<Rightarrow> addr \<Rightarrow> pyval list \<Rightarrow> kwargs \<Rightarrow>
   OutputProcessor option \<Rightarrow> 'u world \<Rightarrow>
   (fault + deferred option) \<times> PerWindowInvoker \<times> 'u world" where
  "call_and_emit X self a as ks op w =
     (case op of
        None \<Rightarrow>
          (Inl (new_fault AttributeError
             ''NoneType object has no attribute process_outputs''), self, w)
      | Some opr \<Rightarrow>
          if \<not> list_all is_str (map fst ks)
          then (Inl (new_fault TypeError ''keywords must be strings''), self, w)
          else
            (case dofn_process X as ks (user w) of
               (r, u1) \<Rightarrow>
                 (case r of
                    Inl f \<Rightarrow> (Inl f, self, log_invocation a as ks u1 w)
                  | Inr res \<Rightarrow>
                      (case process_outputs opr (Some a) res (log_invocation a as ks u1 w) of
                         (Inl f, w2) \<Rightarrow> (Inl f, self, w2)
                       | (Inr u, w2) \<Rightarrow> after_process X self a w2))))"

definition invoke_process_per_window ::
  "'u externals \<Rightarrow> PerWindowInvoker \<Rightarrow> addr \<Rightarrow> pyval list \<Rightarrow> kwargs \<Rightarrow>
   OutputProcessor option \<Rightarrow> 'u world \<Rightarrow>
   (fault + deferred option) \<times> PerWindowInvoker \<times> 'u world" where
  "invoke_process_per_window X self a additional_args additional_kwargs op w =
     (case prepare_args X self (cells w a) additional_args of
        (Inl f, self1) \<Rightarrow> (Inl f, self1, w)
      | (Inr (as, ks, window, aliased), self1) \<Rightarrow>
          (case extract_key self1 (cells w a) of
             Inl f \<Rightarrow> (Inl f, self1, w)
           | Inr key \<Rightarrow>
               (case fill_placeholders self1 (cells w a) key window (placeholders self1) as of
                  (Some f, as1) \<Rightarrow> (Inl f, store_plan aliased as1 ks self1, w)
                | (None, as1) \<Rightarrow>
                    call_and_emit X
                      (store_plan aliased as1 (merge_kwargs additional_kwargs ks) self1)
                      a as1 (merge_kwargs additional_kwargs ks) op w)))"

definition invoke_initial_restriction ::
  "'u externals \<Rightarrow> DoFnSignature \<Rightarrow> pyval \<Rightarrow> 'u world \<Rightarrow> (fault + pyval) \<times> 'u world" where
  "invoke_initial_restriction X sig element w =
     (case initial_restriction_method sig of
        None \<Rightarrow>
          (Inl (new_fault AttributeError ''NoneType object has no attribute method_value''), w)
      | Some provider \<Rightarrow>
          (case provider_initial_restriction X element (user w) of
             (r, u1) \<Rightarrow> (r, w\<lparr>user := u1\<rparr>)))"

definition invoke_create_tracker ::
  "'u externals \<Rightarrow> DoFnSignature \<Rightarrow> pyval \<Rightarrow> 'u world \<Rightarrow> (fault + tracker) \<times> 'u world" where
  "invoke_create_tracker X sig restriction w =
     (case create_tracker_method sig of
        None \<Rightarrow>
          (Inl (new_fault AttributeError ''NoneType object has no attribute method_value''), w)
      | Some provider \<Rightarrow>
          (case provider_create_tracker X restriction (user w) of
             (r, u1) \<Rightarrow> (r, w\<lparr>user := u1\<rparr>)))"

text \<open>The tracker used by \<^verbatim>\<open>invoke_process\<close>: the one supplied, or for a
  splittable DoFn one created from the element's initial restriction.\<close>

definition derive_tracker ::
  "'u externals \<Rightarrow> PerWindowInvoker \<Rightarrow> addr \<Rightarrow> tracker option \<Rightarrow> 'u world \<Rightarrow>
   (fault + tracker option) \<times> 'u world" where
  "derive_tracker X self a restriction_tracker w =
     (if is_splittable self \<and> restriction_tracker = None then
        (case invoke_initial_restriction X (signature self) (value_wv (cells w a)) w of
           (Inl f, w1) \<Rightarrow> (Inl f, w1)
         | (Inr restriction, w1) \<Rightarrow>
             (case invoke_create_tracker X (signature self) restriction w1 of
                (Inl f, w2) \<Rightarrow> (Inl f, w2)
              | (Inr t, w2) \<Rightarrow> (Inr (Some t), w2)))
      else (Inr restriction_tracker, w))"

text \<open>The reset of the watermark estimator and its entry in the keyword arguments;
  this runs before the \<^verbatim>\<open>try\<close> block.\<close>

definition reset_estimator ::
  "'u externals \<Rightarrow> PerWindowInvoker \<Rightarrow> kwargs \<Rightarrow> 'u world \<Rightarrow> (fault + kwargs) \<times> 'u world" where
  "reset_estimator X self additional_kwargs w =
     (case invoker_watermark_estimator self of
        None \<Rightarrow> (Inr additional_kwargs, w)
      | Some e \<Rightarrow>
          (case estimator_reset X (user w) of
             (Inl f, u1) \<Rightarrow> (Inl f, w\<lparr>user := u1\<rparr>)
           | (Inr u, u1) \<Rightarrow>
               (Inr (dict_set
                       (case watermark_estimator_param self of None \<Rightarrow> PNone | Some k \<Rightarrow> PStr k)
                       (PWatermarkEstimator e) additional_kwargs),
                w\<lparr>user := u1\<rparr>)))"

text \<open>The branch of \<^verbatim>\<open>invoke_process\<close> taken when a restriction tracker is
  present, with its \<^verbatim>\<open>try ... finally\<close>.\<close>

definition invoke_with_tracker ::
  "'u externals \<Rightarrow> PerWindowInvoker \<Rightarrow> addr \<Rightarrow> tracker \<Rightarrow> OutputProcessor option \<Rightarrow>
   pyval list \<Rightarrow> kwargs \<Rightarrow> 'u world \<Rightarrow>
   (fault + deferred option) \<times> PerWindowInvoker \<times> 'u world" where
  "invoke_with_tracker X self a t op additional_args additional_kwargs w =
     (if length (windows (cells w a)) > 1 \<and> has_windowed_inputs self
      then (Inl (new_fault NotImplementedError
                   ''SDFs in multiply-windowed values with windowed arguments.''), self, w)
      else
        (case restriction_provider_arg_name (process_method (signature self)) of
           None \<Rightarrow>
             (Inl (new_fault ValueError
                ''A RestrictionTracker %r was provided but DoFn does not have a RestrictionTrackerParam defined''),
              self, w)
         | Some restriction_tracker_param \<Rightarrow>
             if restriction_tracker_param = []
             then
               (Inl (new_fault ValueError
                  ''A RestrictionTracker %r was provided but DoFn does not have a RestrictionTrackerParam defined''),
                self, w)
             else
               (case reset_estimator X self
                       (dict_set (PStr restriction_tracker_param) (RestrictionTrackerView t)
                          additional_kwargs) w of
                  (Inl f, w1) \<Rightarrow> (Inl f, self\<lparr>threadsafe_restriction_tracker := Some t\<rparr>, w1)
                | (Inr ks, w1) \<Rightarrow>
                    (case invoke_process_per_window X
                            (self\<lparr>threadsafe_restriction_tracker := Some t,
                                  current_windowed_value := Some a\<rparr>)
                            a additional_args ks op w1 of
                       (r, self2, w2) \<Rightarrow>
                         (r, self2\<lparr>threadsafe_restriction_tracker := None,
                                   current_windowed_value := Some a\<rparr>, w2)))))"

text \<open>The loop of \<^verbatim>\<open>invoke_process\<close> over the windows of a multi-window value.\<close>

fun explode ::
  "'u externals \<Rightarrow> PerWindowInvoker \<Rightarrow> addr \<Rightarrow> window list \<Rightarrow> pyval list \<Rightarrow> kwargs \<Rightarrow>
   OutputProcessor option \<Rightarrow> 'u world \<Rightarrow>
   (fault + deferred option) \<times> PerWindowInvoker \<times> 'u world" where
  "explode X self a [] additional_args additional_kwargs op w = (Inr None, self, w)"
| "explode X self a (wd # wds) additional_args additional_kwargs op w =
     (case alloc (WindowedValue (value_wv (cells w a)) (timestamp (cells w a)) [wd]) None w of
        (b, w1) \<Rightarrow>
          (case invoke_process_per_window X self b additional_args additional_kwargs op w1 of
             (Inl f, self2, w2) \<Rightarrow> (Inl f, self2, w2)
           | (Inr r, self2, w2) \<Rightarrow>
               explode X self2 a wds additional_args additional_kwargs op w2))"

definition invoke_process_PerWindow ::
  "'u externals \<Rightarrow> PerWindowInvoker \<Rightarrow> addr \<Rightarrow> tracker option \<Rightarrow> OutputProcessor option \<Rightarrow>
   pyval list \<Rightarrow> kwargs \<Rightarrow> 'u world \<Rightarrow>
   (fault + deferred option) \<times> PerWindowInvoker \<times> 'u world" where
  "invoke_process_PerWindow X self a restriction_tracker given_processor additional_args
     additional_kwargs w =
     (if \<not> context_given self
      then (Inl (new_fault AttributeError
                   ''NoneType object has no attribute set_element''), self, w)
      else
        (case derive_tracker X self a restriction_tracker (w\<lparr>context_element := Some a\<rparr>) of
           (Inl f, w1) \<Rightarrow> (Inl f, self, w1)
         | (Inr None, w1) \<Rightarrow>
             if has_windowed_inputs self \<and> length (windows (cells w1 a)) \<noteq> 1
             then explode X self a (windows (cells w1 a)) additional_args additional_kwargs
                    (case given_processor of None \<Rightarrow> output_processor self | Some p \<Rightarrow> Some p) w1
             else
               (case invoke_process_per_window X self a additional_args additional_kwargs
                       (case given_processor of None \<Rightarrow> output_processor self | Some p \<Rightarrow> Some p)
                       w1 of
                  (Inl f, self2, w2) \<Rightarrow> (Inl f, self2, w2)
                | (Inr r, self2, w2) \<Rightarrow> (Inr None, self2, w2))
         | (Inr (Some t), w1) \<Rightarrow>
             invoke_with_tracker X self a t
               (case given_processor of None \<Rightarrow> output_processor self | Some p \<Rightarrow> Some p)
               additional_args additional_kwargs w1))"

definition try_split ::
  "'u externals \<Rightarrow> PerWindowInvoker \<Rightarrow> pyval \<Rightarrow> 'u world \<Rightarrow> split_result option \<times> 'u world" where
  "try_split X self fraction w =
     (case threadsafe_restriction_tracker self of
        None \<Rightarrow> (None, w)
      | Some restriction_tracker \<Rightarrow>
          (case current_windowed_value self of
             None \<Rightarrow> (None, w)
           | Some a \<Rightarrow>
               (let current_watermark =
                      (case invoker_watermark_estimator self of
                         Some e \<Rightarrow> estimator_current_watermark X (user w)
                       | None \<Rightarrow> PNone)
                in case tracker_try_split X restriction_tracker fraction (user w) of
                     (None, u1) \<Rightarrow> (None, w\<lparr>user := u1\<rparr>)
                   | (Some (primary, residual), u1) \<Rightarrow>
                       (let element = value_wv (cells w a);
                            primary_size = provider_restriction_size X element primary;
                            residual_size = provider_restriction_size X element residual
                        in case alloc (with_value (cells w a)
                                  (PTuple [PTuple [element, primary], primary_size]))
                                  (window_list w a) (w\<lparr>user := u1\<rparr>) of
                             (p, w2) \<Rightarrow>
                               (case alloc (with_value (cells w a)
                                       (PTuple [PTuple [element, residual], residual_size]))
                                       (window_list w a) w2 of
                                  (r, w3) \<Rightarrow>
                                    (Some (((p, PNone), PNone), ((r, current_watermark), PNone)),
                                     w3))))))"

definition current_element_progress ::
  "'u externals \<Rightarrow> PerWindowInvoker \<Rightarrow> 'u world \<Rightarrow> pyval option" where
  "current_element_progress X self w =
     (case threadsafe_restriction_tracker self of
        None \<Rightarrow> None
      | Some restriction_tracker \<Rightarrow> Some (tracker_current_progress X restriction_tracker (user w)))"

section \<open>The other lifecycle methods of an invoker\<close>

definition invoke_setup ::
  "'u externals \<Rightarrow> 'a DoFnInvoker_scheme \<Rightarrow> 'u world \<Rightarrow> (fault + unit) \<times> 'u world" where
  "invoke_setup X self w = (case dofn_setup X (user w) of (r, u1) \<Rightarrow> (r, w\<lparr>user := u1\<rparr>))"

definition invoke_teardown ::
  "'u externals \<Rightarrow> 'a DoFnInvoker_scheme \<Rightarrow> 'u world \<Rightarrow> (fault + unit) \<times> 'u world" where
  "invoke_teardown X self w = (case dofn_teardown X (user w) of (r, u1) \<Rightarrow> (r, w\<lparr>user := u1\<rparr>))"

definition invoke_start_bundle ::
  "'u externals \<Rightarrow> 'a DoFnInvoker_scheme \<Rightarrow> 'u world \<Rightarrow> (fault + unit) \<times> 'u world" where
  "invoke_start_bundle X self w =
     (case output_processor self of
        None \<Rightarrow>
          (Inl (new_fault AttributeError
             ''NoneType object has no attribute start_bundle_outputs''), w)
      | Some opr \<Rightarrow>
          (case dofn_start_bundle X (user w) of
             (Inl f, u1) \<Rightarrow> (Inl f, w\<lparr>user := u1\<rparr>)
           | (Inr res, u1) \<Rightarrow> start_bundle_outputs opr res (w\<lparr>user := u1\<rparr>)))"

definition invoke_finish_bundle ::
  "'u externals \<Rightarrow> 'a DoFnInvoker_scheme \<Rightarrow> 'u world \<Rightarrow> (fault + unit) \<times> 'u world" where
  "invoke_finish_bundle X self w =
     (case output_processor self of
        None \<Rightarrow>
          (Inl (new_fault AttributeError
             ''NoneType object has no attribute finish_bundle_outputs''), w)
      | Some opr \<Rightarrow>
          (case dofn_finish_bundle X (user w) of
             (Inl f, u1) \<Rightarrow> (Inl f, w\<lparr>user := u1\<rparr>)
           | (Inr res, u1) \<Rightarrow> finish_bundle_outputs opr res (w\<lparr>user := u1\<rparr>)))"

text \<open>\<^verbatim>\<open>MethodWrapper.invoke_timer_callback\<close>: the keyword arguments of the
  callback.\<close>

definition timer_callback_kwargs ::
  "MethodWrapper \<Rightarrow> bool \<Rightarrow> pyval \<Rightarrow> window \<Rightarrow> timestamp \<Rightarrow> fault + kwargs" where
  "timer_callback_kwargs m usc key window ts =
     (if has_userstate_arguments m
         \<and> (state_args_to_replace m \<noteq> [] \<or> timer_args_to_replace m \<noteq> []) \<and> \<not> usc
      then Inl (new_fault AttributeError ''NoneType object has no attribute get_state'')
      else
        (let k0 = (if has_userstate_arguments m
                   then map (\<lambda>(kw, spec). (PStr kw, PState spec key window))
                          (state_args_to_replace m)
                        @ map (\<lambda>(kw, spec). (PStr kw, PTimer spec key window))
                          (timer_args_to_replace m)
                   else []);
             k1 = (case timestamp_arg_name m of
                     None \<Rightarrow> k0
                   | Some n \<Rightarrow> if n = [] then k0 else dict_set (PStr n) (PTimestamp ts) k0);
             k2 = (case window_arg_name m of
                     None \<Rightarrow> k1
                   | Some n \<Rightarrow> if n = [] then k1 else dict_set (PStr n) (PWindow window) k1);
             k3 = (case key_arg_name m of
                     None \<Rightarrow> k2
                   | Some n \<Rightarrow> if n = [] then k2 else dict_set (PStr n) key k2)
         in Inr k3))"

text \<open>\<^verbatim>\<open>invoke_user_timer\<close>. A timer spec without a callback in \<open>timer_methods\<close> is a
  \<^verbatim>\<open>KeyError\<close> whose argument is the TimerSpec object itself, not a string.\<close>

definition invoke_user_timer ::
  "'u externals \<Rightarrow> 'a DoFnInvoker_scheme \<Rightarrow> string \<Rightarrow> pyval \<Rightarrow> window \<Rightarrow> timestamp \<Rightarrow>
   'u world \<Rightarrow> (fault + unit) \<times> 'u world" where
  "invoke_user_timer X self timer_spec key window ts w =
     (case output_processor self of
        None \<Rightarrow>
          (Inl (new_fault AttributeError
             ''NoneType object has no attribute process_outputs''), w)
      | Some opr \<Rightarrow>
          (case alloc (WindowedValue PNone ts [window]) None w of
             (a, w1) \<Rightarrow>
               (case map_of (timer_methods (signature self)) timer_spec of
                  None \<Rightarrow>
                    (Inl \<lparr>exn_kind = KeyError, exn_args = [PObj timer_spec],
                          tagged_with_step = False\<rparr>, w1)
                | Some m \<Rightarrow>
                    (case timer_callback_kwargs m (user_state_context self) key window ts of
                       Inl f \<Rightarrow> (Inl f, w1)
                     | Inr ks \<Rightarrow>
                         (case dofn_timer_callback X timer_spec ks (user w1) of
                            (Inl f, u1) \<Rightarrow> (Inl f, w1\<lparr>user := u1\<rparr>)
                          | (Inr res, u1) \<Rightarrow>
                              process_outputs opr (Some a) res (w1\<lparr>user := u1\<rparr>))))))"

section \<open>DoFnRunner\<close>

record DoFnRunner =
  step_name :: "string option"
  do_fn_invoker :: invoker

definition invoker_base :: "invoker \<Rightarrow> DoFnInvoker" where
  "invoker_base i = (case i of Simple b \<Rightarrow> b | PerWindow p \<Rightarrow> DoFnInvoker.truncate p)"

text \<open>
  \<^verbatim>\<open>DoFnRunner.__init__\<close>. \<open>receivers\<close> lists the keys of the tagged receiver
  mapping (\<open>None\<close> is the main output); \<open>counter\<close> is the per-element output counter
  found for the step, if the experiment is on.
\<close>

definition DoFnRunner_init ::
  "(pyval \<Rightarrow> string option) \<Rightarrow> pyval list \<Rightarrow> do_fn \<Rightarrow> pyval list \<Rightarrow> kwargs \<Rightarrow>
   side_input_map list \<Rightarrow> (timestamp \<Rightarrow> pyval \<Rightarrow> window list) \<Rightarrow> string option list \<Rightarrow>
   string option \<Rightarrow> bool option \<Rightarrow> bool \<Rightarrow> fault + DoFnRunner" where
  "DoFnRunner_init param_id DoFnProcessParams fn input_args input_kwargs sis windowfn receivers
     name counter usc =
     (case DoFnSignature_init param_id DoFnProcessParams fn of
        Inl f \<Rightarrow> Inl f
      | Inr sig \<Rightarrow>
          if None \<notin> set receivers
          then Inl \<lparr>exn_kind = KeyError, exn_args = [PNone], tagged_with_step = False\<rparr>
          else if is_stateful_dofn sig \<and> \<not> usc
          then Inl (new_fault Exception
                 (''Requested execution of a stateful DoFn, but no user state context ''
                  @ ''is available. This likely means that the current runner does not ''
                  @ ''support the execution of stateful DoFns.''))
          else
            (case create_invoker sig
                    (Some \<lparr>window_fn = windowfn,
                           tagged_receivers = List.map_filter id receivers,
                           per_element_output_counter = counter\<rparr>)
                    True sis input_args input_kwargs True usc PBundleFinalizer of
               Inl f \<Rightarrow> Inl f
             | Inr i \<Rightarrow> Inr \<lparr>step_name = name, do_fn_invoker = i\<rparr>))"

fun constructible :: "exn_kind \<Rightarrow> bool" where
  "constructible (UserError name rebuildable) = rebuildable"
| "constructible k = True"

definition step_annotation :: "string \<Rightarrow> string" where
  "step_annotation name = '' [while running '' @ [CHR 0x27] @ name @ [CHR 0x27] @ '']''"

text \<open>\<^verbatim>\<open>type(exn)(exn.args[0] + step_annotation, *exn.args[1:])\<close> with the tag set;
  \<open>None\<close> when any step of it raises.\<close>

definition rebuild :: "fault \<Rightarrow> string \<Rightarrow> fault option" where
  "rebuild exn annotation =
     (case exn_args exn of
        [] \<Rightarrow> None
      | a0 # rest \<Rightarrow>
          (case a0 of
             PStr s \<Rightarrow>
               if constructible (exn_kind exn)
               then Some \<lparr>exn_kind = exn_kind exn, exn_args = PStr (s @ annotation) # rest,
                          tagged_with_step = True\<rparr>
               else None
           | _ \<Rightarrow> None))"

definition reraise_augmented :: "'u externals \<Rightarrow> DoFnRunner \<Rightarrow> fault \<Rightarrow> fault" where
  "reraise_augmented X self exn =
     (case step_name self of
        None \<Rightarrow> exn
      | Some name \<Rightarrow>
          if tagged_with_step exn \<or> name = [] then exn
          else
            (case rebuild exn (step_annotation name) of
               Some new_exn \<Rightarrow> new_exn
             | None \<Rightarrow>
                 \<lparr>exn_kind = RuntimeError,
                  exn_args = [PStr (format_exception_only X exn @ step_annotation name)],
                  tagged_with_step = True\<rparr>))"

definition invoke_process ::
  "'u externals \<Rightarrow> invoker \<Rightarrow> addr \<Rightarrow> tracker option \<Rightarrow> 'u world \<Rightarrow>
   (fault + deferred option) \<times> invoker \<times> 'u world" where
  "invoke_process X i a restriction_tracker w =
     (case i of
        Simple b \<Rightarrow>
          (case invoke_process_Simple X b a None w of (r, w1) \<Rightarrow> (r, Simple b, w1))
      | PerWindow p \<Rightarrow>
          (case invoke_process_PerWindow X p a restriction_tracker None [] [] w of
             (r, p1, w1) \<Rightarrow> (r, PerWindow p1, w1)))"

definition process ::
  "'u externals \<Rightarrow> DoFnRunner \<Rightarrow> addr \<Rightarrow> 'u world \<Rightarrow>
   (fault + deferred option) \<times> DoFnRunner \<times> 'u world" where
  "process X self a w =
     (case invoke_process X (do_fn_invoker self) a None w of
        (Inl exn, i, w1) \<Rightarrow> (Inl (reraise_augmented X self exn), self\<lparr>do_fn_invoker := i\<rparr>, w1)
      | (Inr r, i, w1) \<Rightarrow> (Inr r, self\<lparr>do_fn_invoker := i\<rparr>, w1))"

text \<open>\<^verbatim>\<open>process_with_sized_restriction\<close>: the value is unpacked as
  \<^verbatim>\<open>(element, restriction), _\<close>; there is no \<^verbatim>\<open>try\<close> around the invocation.\<close>

definition process_with_sized_restriction ::
  "'u externals \<Rightarrow> DoFnRunner \<Rightarrow> addr \<Rightarrow> 'u world \<Rightarrow>
   (fault + deferred option) \<times> DoFnRunner \<times> 'u world" where
  "process_with_sized_restriction X self a w =
     (case unpack_pair (value_wv (cells w a)) of
        Inl f \<Rightarrow> (Inl f, self, w)
      | Inr (er, unused_size) \<Rightarrow>
          (case unpack_pair er of
             Inl f \<Rightarrow> (Inl f, self, w)
           | Inr (element, restriction) \<Rightarrow>
               (case alloc (with_value (cells w a) element) (window_list w a) w of
                  (b, w1) \<Rightarrow>
                    (case invoke_create_tracker X
                            (signature (invoker_base (do_fn_invoker self))) restriction w1 of
                       (Inl f, w2) \<Rightarrow> (Inl f, self, w2)
                     | (Inr t, w2) \<Rightarrow>
                         (case invoke_process X (do_fn_invoker self) b (Some t) w2 of
                            (r, i, w3) \<Rightarrow> (r, self\<lparr>do_fn_invoker := i\<rparr>, w3))))))"

definition runner_try_split ::
  "'u externals \<Rightarrow> DoFnRunner \<Rightarrow> pyval \<Rightarrow> 'u world \<Rightarrow> (fault + split_result option) \<times> 'u world" where
  "runner_try_split X self fraction w =
     (case do_fn_invoker self of
        Simple b \<Rightarrow>
          (Inl (new_fault AttributeError ''SimpleInvoker object has no attribute try_split''), w)
      | PerWindow p \<Rightarrow> (case try_split X p fraction w of (r, w1) \<Rightarrow> (Inr r, w1)))"

text \<open>\<^verbatim>\<open>_invoke_bundle_method\<close> and \<^verbatim>\<open>_invoke_lifecycle_method\<close>: the context's
  element is cleared, the method runs, and a fault goes through
  \<^verbatim>\<open>_reraise_augmented\<close>.\<close>

definition invoke_guarded ::
  "'u externals \<Rightarrow> DoFnRunner \<Rightarrow> ('u world \<Rightarrow> (fault + unit) \<times> 'u world) \<Rightarrow> 'u world \<Rightarrow>
   (fault + unit) \<times> 'u world" where
  "invoke_guarded X self bundle_method w =
     (case bundle_method (w\<lparr>context_element := None\<rparr>) of
        (Inl exn, w1) \<Rightarrow> (Inl (reraise_augmented X self exn), w1)
      | (Inr u, w1) \<Rightarrow> (Inr (), w1))"

definition setup_runner ::
  "'u externals \<Rightarrow> DoFnRunner \<Rightarrow> 'u world \<Rightarrow> (fault + unit) \<times> 'u world" where
  "setup_runner X self w =
     invoke_guarded X self (invoke_setup X (invoker_base (do_fn_invoker self))) w"

definition start :: "'u externals \<Rightarrow> DoFnRunner \<Rightarrow> 'u world \<Rightarrow> (fault + unit) \<times> 'u world" where
  "start X self w =
     invoke_guarded X self (invoke_start_bundle X (invoker_base (do_fn_invoker self))) w"

definition finish :: "'u externals \<Rightarrow> DoFnRunner \<Rightarrow> 'u world \<Rightarrow> (fault + unit) \<times> 'u world" where
  "finish X self w =
     invoke_guarded X self (invoke_finish_bundle X (invoker_base (do_fn_invoker self))) w"

definition teardown :: "'u externals \<Rightarrow> DoFnRunner \<Rightarrow> 'u world \<Rightarrow> (fault + unit) \<times> 'u world" where
  "teardown X self w =
     invoke_guarded X self (invoke_teardown X (invoker_base (do_fn_invoker self))) w"

definition process_user_timer ::
  "'u externals \<Rightarrow> DoFnRunner \<Rightarrow> string \<Rightarrow> pyval \<Rightarrow> window \<Rightarrow> timestamp \<Rightarrow> 'u world \<Rightarrow>
   (fault + unit) \<times> 'u world" where
  "process_user_timer X self timer_spec key window ts w =
     (case invoke_user_timer X (invoker_base (do_fn_invoker self)) timer_spec key window ts w of
        (Inl exn, w1) \<Rightarrow> (Inl (reraise_augmented X self exn), w1)
      | (Inr u, w1) \<Rightarrow> (Inr (), w1))"

section \<open>Notions used in the statements\<close>

text \<open>A plain result: not a TaggedOutput, not a WindowedValue, not a
  TimestampedValue.\<close>

fun is_plain :: "pyval \<Rightarrow> bool" where
  "is_plain (TaggedOutput t v) = False"
| "is_plain (PRef a) = False"
| "is_plain (TimestampedValue v t) = False"
| "is_plain v = True"

text \<open>The WindowedValue object that a result is, bare or inside a TaggedOutput.\<close>

fun returned_object :: "pyval \<Rightarrow> addr option" where
  "returned_object (PRef a) = Some a"
| "returned_object (TaggedOutput t (PRef a)) = Some a"
| "returned_object v = None"

definition is_simple :: "invoker \<Rightarrow> bool" where
  "is_simple i = (case i of Simple b \<Rightarrow> True | PerWindow p \<Rightarrow> False)"

text \<open>Two WindowedValues that agree on everything but their windows.\<close>

definition same_but_windows :: "windowed_value \<Rightarrow> windowed_value \<Rightarrow> bool" where
  "same_but_windows x y \<longleftrightarrow>
     value_wv x = value_wv y \<and> timestamp x = timestamp y \<and> pane_info x = pane_info y"

text \<open>The WindowedValue object that an untagged result is.\<close>

fun direct_object :: "pyval \<Rightarrow> addr option" where
  "direct_object (PRef a) = Some a"
| "direct_object v = None"

text \<open>The windows of the objects \<open>b\<close> and \<open>c\<close> are one and the same list.\<close>

definition shares :: "'u world \<Rightarrow> addr \<Rightarrow> addr \<Rightarrow> bool" where
  "shares w b c \<longleftrightarrow> window_list w b \<noteq> None \<and> window_list w b = window_list w c"

text \<open>Every list that is the windows of an object already constructed is a list
  already constructed.\<close>

definition lists_known :: "'u world \<Rightarrow> bool" where
  "lists_known w \<longleftrightarrow> (\<forall>c < next_free w. \<forall>l. window_list w c = Some l \<longrightarrow> l < next_list w)"

text \<open>
  What a stretch of output processing for the input at \<open>a\<close> may do to the objects
  that exist before it: none disappears, none is given another sequence of windows,
  only the content of windows changes, only for the object \<open>touched\<close> and the objects
  whose windows are the same list as its windows, and for none at all when the input
  has exactly one window.
\<close>

definition frame :: "addr \<Rightarrow> addr option \<Rightarrow> 'u world \<Rightarrow> 'u world \<Rightarrow> bool" where
  "frame a touched w w' \<longleftrightarrow>
     next_free w \<le> next_free w' \<and> next_list w \<le> next_list w' \<and>
     (lists_known w \<longrightarrow> lists_known w') \<and>
     (\<forall>b < next_free w.
        same_but_windows (cells w' b) (cells w b) \<and>
        window_list w' b = window_list w b \<and>
        (lists_known w \<and> (\<forall>c. touched = Some c \<longrightarrow> c \<noteq> b \<and> \<not> shares w b c)
           \<longrightarrow> cells w' b = cells w b) \<and>
        (length (windows (cells w a)) = 1 \<longrightarrow> cells w' b = cells w b))"

text \<open>Two states of an invoker that differ at most in the argument plan (the cache
  flag, the argument list and the keyword dictionary).\<close>

definition same_static :: "PerWindowInvoker \<Rightarrow> PerWindowInvoker \<Rightarrow> bool" where
  "same_static p q \<longleftrightarrow>
     output_processor q = output_processor p \<and> signature q = signature p \<and>
     user_state_context q = user_state_context p \<and>
     bundle_finalizer_param q = bundle_finalizer_param p \<and>
     side_inputs q = side_inputs p \<and> context_given q = context_given p \<and>
     has_windowed_inputs q = has_windowed_inputs p \<and> is_splittable q = is_splittable p \<and>
     invoker_watermark_estimator q = invoker_watermark_estimator p \<and>
     watermark_estimator_param q = watermark_estimator_param p \<and>
     threadsafe_restriction_tracker q = threadsafe_restriction_tracker p \<and>
     current_windowed_value q = current_windowed_value p \<and>
     is_key_param_required q = is_key_param_required p \<and>
     placeholders q = placeholders p"

section \<open>Example inputs\<close>

definition example_input :: windowed_value where
  "example_input =
     \<lparr>value_wv = PInt 7, timestamp = 5,
      windows = [IntervalWindow 0 10, IntervalWindow 10 20], pane_info = PaneInfo 1\<rparr>"

definition example_output :: windowed_value where
  "example_output =
     \<lparr>value_wv = PInt 8, timestamp = 6, windows = [GlobalWindow], pane_info = PaneInfo 2\<rparr>"

text \<open>A world with the objects \<open>example_input\<close> at address 0 and
  \<open>example_output\<close> at address 1, whose windows are tuples.\<close>

definition example_world :: "nat world" where
  "example_world =
     \<lparr>cells = (\<lambda>a. example_input)(1 := example_output), next_free = 2,
      window_list = (\<lambda>a. None), next_list = 0, received = [],
      counter_inputs = [], invocations = [], context_element = None, user = 0\<rparr>"

text \<open>The same, with a third object at address 2 that is a \<^verbatim>\<open>with_value\<close> copy of the
  object at address 1, the windows of both being one list.\<close>

definition shared_world :: "nat world" where
  "shared_world =
     example_world\<lparr>cells := (cells example_world)(2 := with_value example_output (PInt 9)),
                   next_free := 3,
                   window_list := (\<lambda>a. None)(1 := Some 0, 2 := Some 0),
                   next_list := 1\<rparr>"

definition example_processor :: OutputProcessor where
  "example_processor =
     \<lparr>window_fn = (\<lambda>t v. [GlobalWindow]), tagged_receivers = [''errors''],
      per_element_output_counter = None\<rparr>"

text \<open>
  Collaborators for the examples. The user state is a number, which is also the
  watermark that the estimator reports. The process method yields one plain value
  and adds one to the state; \<^verbatim>\<open>start_bundle\<close> returns an empty list; the tracker
  accepts every split and the split adds 100 to the state.
\<close>

definition example_externals :: "nat externals" where
  "example_externals =
     \<lparr>dofn_process = (\<lambda>as ks u. (Inr (ResultsList [PInt 1]), Suc u)),
      dofn_start_bundle = (\<lambda>u. (Inr (ResultsList []), u)),
      dofn_finish_bundle = (\<lambda>u. (Inr ResultsNone, u)),
      dofn_setup = (\<lambda>u. (Inr (), u)),
      dofn_teardown = (\<lambda>u. (Inr (), u)),
      dofn_timer_callback = (\<lambda>spec ks u. (Inr ResultsNone, u)),
      provider_initial_restriction = (\<lambda>e u. (Inr (PTuple [PInt 0, PInt 10]), u)),
      provider_create_tracker = (\<lambda>r u. (Inr 1, u)),
      provider_restriction_size = (\<lambda>e r. PInt 10),
      tracker_try_split =
        (\<lambda>t f u. (Some (PTuple [PInt 0, PInt 5], PTuple [PInt 5, PInt 10]), u + 100)),
      tracker_check_done = (\<lambda>t u. (Inr (), u)),
      tracker_deferred_status = (\<lambda>t u. None),
      tracker_current_progress = (\<lambda>t u. PInt 0),
      estimator_reset = (\<lambda>u. (Inr (), u)),
      estimator_current_watermark = (\<lambda>u. PTimestamp (int u)),
      insert_values_in_args = (\<lambda>as ks vs. Inr (as, ks)),
      format_exception_only = (\<lambda>f. ''Error'')\<rparr>"

definition no_params :: method_decl where
  "no_params = \<lparr>required = [], optional = []\<rparr>"

text \<open>\<^verbatim>\<open>def process(self, element)\<close>, with lifecycle methods without parameters.\<close>

definition plain_dofn :: do_fn where
  "plain_dofn =
     \<lparr>process_decl = \<lparr>required = [''element''], optional = []\<rparr>,
      start_bundle_decl = no_params, finish_bundle_decl = no_params,
      setup_decl = no_params, teardown_decl = no_params,
      is_stateful_dofn_userstate = False, timer_specs = [], stateful_spec_fault = None\<rparr>"

text \<open>\<^verbatim>\<open>def process(self, element, w=DoFn.WindowParam)\<close>.\<close>

definition window_dofn :: do_fn where
  "window_dofn =
     plain_dofn\<lparr>process_decl :=
       \<lparr>required = [''element''], optional = [(''w'', PParam WindowParam)]\<rparr>\<rparr>"

text \<open>\<^verbatim>\<open>def process(self, element, w=DoFn.WindowParam,
  tracker=DoFn.RestrictionParam(provider))\<close>.\<close>

definition splittable_window_dofn :: do_fn where
  "splittable_window_dofn =
     plain_dofn\<lparr>process_decl :=
       \<lparr>required = [''element''],
        optional = [(''w'', PParam WindowParam),
                    (''tracker'', PParam (RestrictionParam ''provider''))]\<rparr>\<rparr>"

text \<open>\<^verbatim>\<open>def process(self, element, tracker=DoFn.RestrictionParam(provider),
  estimator=DoFn.WatermarkEstimatorParam(estimator))\<close>.\<close>

definition splittable_dofn :: do_fn where
  "splittable_dofn =
     plain_dofn\<lparr>process_decl :=
       \<lparr>required = [''element''],
        optional = [(''tracker'', PParam (RestrictionParam ''provider'')),
                    (''estimator'', PParam (WatermarkEstimatorParam ''estimator''))]\<rparr>\<rparr>"

text \<open>An instance of \<^verbatim>\<open>param_id\<close> and of \<^verbatim>\<open>DoFnProcessParams\<close> for the examples.\<close>

fun example_param_id :: "pyval \<Rightarrow> string option" where
  "example_param_id (PParam ElementParam) = Some ''ElementParam''"
| "example_param_id (PParam SideInputParam) = Some ''SideInputParam''"
| "example_param_id (PParam TimestampParam) = Some ''TimestampParam''"
| "example_param_id (PParam WindowParam) = Some ''WindowParam''"
| "example_param_id (PParam PaneInfoParam) = Some ''PaneInfoParam''"
| "example_param_id (PParam KeyParam) = Some ''KeyParam''"
| "example_param_id (PParam (StateParam s)) = Some (''StateParam('' @ s @ '')'')"
| "example_param_id (PParam (TimerParam s)) = Some (''TimerParam('' @ s @ '')'')"
| "example_param_id (PParam (RestrictionParam s)) = Some (''RestrictionParam('' @ s @ '')'')"
| "example_param_id (PParam (WatermarkEstimatorParam s)) = Some ''WatermarkEstimatorParam''"
| "example_param_id v = None"

definition example_DoFnProcessParams :: "pyval list" where
  "example_DoFnProcessParams =
     map PParam [ElementParam, SideInputParam, TimestampParam, WindowParam, PaneInfoParam,
                 BundleFinalizerParam, KeyParam]"

text \<open>The invoker that \<open>create_invoker\<close> builds for \<open>plain_dofn\<close>.\<close>

definition plain_invoker :: DoFnInvoker where
  "plain_invoker =
     \<lparr>output_processor = Some example_processor, signature = DoFnSignature_fields plain_dofn,
      user_state_context = False, bundle_finalizer_param = PNone\<rparr>"

text \<open>\<^verbatim>\<open>def setup(self, a=DoFn.WindowParam, b=DoFn.WindowParam)\<close> on top of
  \<open>plain_dofn\<close>.\<close>

definition repeated_setup_dofn :: do_fn where
  "repeated_setup_dofn =
     plain_dofn\<lparr>setup_decl :=
       \<lparr>required = [], optional = [(''a'', PParam WindowParam), (''b'', PParam WindowParam)]\<rparr>\<rparr>"

text \<open>\<^verbatim>\<open>def start_bundle(self, w=DoFn.WindowParam)\<close> on top of \<open>plain_dofn\<close>.\<close>

definition window_in_start_bundle_dofn :: do_fn where
  "window_in_start_bundle_dofn =
     plain_dofn\<lparr>start_bundle_decl :=
       \<lparr>required = [], optional = [(''w'', PParam WindowParam)]\<rparr>\<rparr>"

text \<open>\<^verbatim>\<open>def process(self, element, a=DoFn.WindowParam, b=DoFn.WindowParam)\<close>.\<close>

definition repeated_process_dofn :: do_fn where
  "repeated_process_dofn =
     plain_dofn\<lparr>process_decl :=
       \<lparr>required = [''element''],
        optional = [(''a'', PParam WindowParam), (''b'', PParam WindowParam)]\<rparr>\<rparr>"

text \<open>The PerWindowInvokers that \<open>create_invoker\<close> builds for the example DoFns, without
  side inputs or extra arguments.\<close>

definition window_invoker :: PerWindowInvoker where
  "window_invoker =
     projr (PerWindowInvoker_init (Some example_processor) (DoFnSignature_fields window_dofn)
              True [] [] [] False PBundleFinalizer)"

definition splittable_invoker :: PerWindowInvoker where
  "splittable_invoker =
     projr (PerWindowInvoker_init (Some example_processor) (DoFnSignature_fields splittable_dofn)
              True [] [] [] False PBundleFinalizer)"

definition splittable_window_invoker :: PerWindowInvoker where
  "splittable_window_invoker =
     projr (PerWindowInvoker_init (Some example_processor)
              (DoFnSignature_fields splittable_window_dofn) True [] [] [] False PBundleFinalizer)"

text \<open>Collaborators whose process method raises \<^verbatim>\<open>ValueError('boom')\<close>.\<close>

definition failing_externals :: "nat externals" where
  "failing_externals =
     example_externals\<lparr>dofn_process :=
       (\<lambda>as ks u. (Inl \<lparr>exn_kind = ValueError, exn_args = [PStr ''boom''],
                          tagged_with_step = False\<rparr>, u))\<rparr>"

text \<open>The bundle driver for \<open>splittable_dofn\<close> in the step named \<^verbatim>\<open>step\<close>.\<close>

definition splittable_runner :: DoFnRunner where
  "splittable_runner = \<lparr>step_name = Some ''step'', do_fn_invoker = PerWindow splittable_invoker\<rparr>"

text \<open>A world whose object at address 0 is a sized element
  \<^verbatim>\<open>((7, (0, 10)), 10)\<close> in the global window.\<close>

definition sized_world :: "nat world" where
  "sized_world =
     \<lparr>cells = (\<lambda>a. \<lparr>value_wv = PTuple [PTuple [PInt 7, PTuple [PInt 0, PInt 10]], PInt 10],
                      timestamp = 5, windows = [GlobalWindow], pane_info = PaneInfo 1\<rparr>),
      next_free = 1, window_list = (\<lambda>a. None), next_list = 0, received = [],
      counter_inputs = [], invocations = [], context_element = None, user = 0\<rparr>"

section \<open>Output processing: plain results\<close>

lemma process_output_plain:
  "is_plain r \<Longrightarrow>
   process_output op (Some a) r w =
     (Inr (), w\<lparr>cells := (cells w)(next_free w := with_value (cells w a) r),
               window_list := (window_list w)(next_free w := window_list w a),
               next_free := Suc (next_free w),
               received := received w @ [(None, next_free w, with_value (cells w a) r)]\<rparr>)"
  by (cases r) (simp_all add: process_output_def receive_def alloc_def)

lemma dispatch_all_plain:
  "list_all is_plain rs \<Longrightarrow> a < next_free w \<Longrightarrow>
   fst (dispatch_all op (Some a) rs w) = Inr () \<and>
   received (snd (dispatch_all op (Some a) rs w)) =
     received w @ map (\<lambda>(k, r). (None, next_free w + k, with_value (cells w a) r)) (enumerate 0 rs)"
proof (induction rs arbitrary: w)
  case Nil
  then show ?case by simp
next
  case (Cons r rs)
  let ?w1 = "w\<lparr>cells := (cells w)(next_free w := with_value (cells w a) r),
               window_list := (window_list w)(next_free w := window_list w a),
               next_free := Suc (next_free w),
               received := received w @ [(None, next_free w, with_value (cells w a) r)]\<rparr>"
  from Cons.prems have pl: "is_plain r" and rest: "list_all is_plain rs" by simp_all
  have step: "dispatch_all op (Some a) (r # rs) w = dispatch_all op (Some a) rs ?w1"
    by (simp add: process_output_plain [OF pl])
  have a1: "a < next_free ?w1" using Cons.prems by simp
  have c1: "cells ?w1 a = cells w a" using Cons.prems by simp
  from Cons.IH [OF rest a1] show ?case
    unfolding step using Cons.prems(2)
    by (simp add: c1 enumerate_Suc_eq[of 0] map_map comp_def split_def del: dispatch_all.simps)
qed

lemma received_add_input: "received (add_input op n w) = received w"
  by (simp add: add_input_def)

text \<open>
  Claim C1, as the code has it. For an input WindowedValue that is an object
  already constructed (in particular one carrying two windows) and results that
  are all plain values, \<open>process_outputs\<close> succeeds and hands the main receiver
  exactly one new WindowedValue per result, in order: the \<open>k\<close>-th is the object
  allocated \<open>k\<close>-th, and it is the input with its value replaced by the result, so it
  carries the input's timestamp, pane and all of the input's windows.
\<close>

theorem process_outputs_plain_results:
  assumes "list_all is_plain (results_items res)" and "res \<noteq> ResultsNone"
    and "results_fault res = None" and "a < next_free w"
  shows "fst (process_outputs op (Some a) res w) = Inr () \<and>
         received (snd (process_outputs op (Some a) res w)) =
           received w @
           map (\<lambda>(k, r). (None, next_free w + k, with_value (cells w a) r))
             (enumerate 0 (results_items res))"
proof -
  obtain w1 where d: "dispatch_all op (Some a) (results_items res) w = (Inr (), w1)"
    using dispatch_all_plain [OF assms(1) assms(4), of op] by (metis prod.collapse)
  have r: "received w1 = received w @
           map (\<lambda>(k, r). (None, next_free w + k, with_value (cells w a) r))
             (enumerate 0 (results_items res))"
    using dispatch_all_plain [OF assms(1) assms(4), of op] d by simp
  show ?thesis
    using assms(2,3) d r by (simp add: process_outputs_def received_add_input)
qed

theorem process_outputs_plain_results_witness:
  "fst (process_outputs example_processor (Some 0) (ResultsList [PInt 1]) example_world) = Inr () \<and>
   received (snd (process_outputs example_processor (Some 0) (ResultsList [PInt 1]) example_world)) =
     [(None, 2, \<lparr>value_wv = PInt 1, timestamp = 5,
                 windows = [IntervalWindow 0 10, IntervalWindow 10 20], pane_info = PaneInfo 1\<rparr>)]"
  using process_outputs_plain_results [of "ResultsList [PInt 1]" 0 example_world example_processor]
  by (simp add: example_world_def example_input_def with_value_def enumerate_Suc_eq[of 0])

text \<open>
  Claim C1 as stated fails: the input at address 0 carries two windows, the result
  \<open>PInt 1\<close> is plain, and the main receiver is handed one WindowedValue, not two.
\<close>

theorem two_windows_one_dispatch:
  "length (windows (cells example_world 0)) = 2 \<and>
   is_plain (PInt 1) \<and>
   length (received (snd (process_outputs example_processor (Some 0) (ResultsList [PInt 1])
      example_world))) = 1"
  by (simp add: process_outputs_def process_output_def receive_def alloc_def add_input_def
      example_world_def example_input_def example_processor_def)

section \<open>Output processing: what happens to existing objects\<close>

lemma frame_to_windowed_value:
  assumes "a < next_free w"
  shows "frame a (direct_object r) w (snd (to_windowed_value op (Some a) r w))"
proof (cases r)
  case (PRef c)
  show ?thesis
  proof (cases "window_list w c")
    case None
    then show ?thesis using PRef assms
      by (auto simp: frame_def same_but_windows_def multiply_windows_def lists_known_def shares_def)
  next
    case (Some l)
    then show ?thesis using PRef assms
      by (auto simp: frame_def same_but_windows_def multiply_windows_def lists_known_def shares_def)
  qed
next
  case (TimestampedValue v t)
  show ?thesis using TimestampedValue assms
    by (auto simp: frame_def same_but_windows_def multiply_windows_def alloc_def lists_known_def
        shares_def less_Suc_eq)
qed (use assms in \<open>auto simp: frame_def same_but_windows_def alloc_def lists_known_def shares_def less_Suc_eq\<close>)

lemma frame_receive:
  "cells (snd (receive op tag c w)) = cells w \<and>
   next_free (snd (receive op tag c w)) = next_free w \<and>
   window_list (snd (receive op tag c w)) = window_list w \<and>
   next_list (snd (receive op tag c w)) = next_list w"
  by (auto simp: receive_def split: option.splits)

lemma lists_known_receive: "lists_known (snd (receive op tag c w)) = lists_known w"
  by (simp add: lists_known_def frame_receive)

lemma returned_object_untag:
  assumes "untag r = Inr (tag, r')" and "direct_object r' = Some b"
  shows "returned_object r = Some b"
proof (cases r)
  case (TaggedOutput t v)
  with assms show ?thesis by (cases t; cases v; auto)
qed (use assms in auto)

lemma frame_weaken:
  assumes "frame a t w w'" and "\<And>c. t = Some c \<Longrightarrow> t' = Some c"
  shows "frame a t' w w'"
  using assms unfolding frame_def by blast

lemma frame_refl: "frame a t w w"
  by (simp add: frame_def same_but_windows_def)

lemma frame_process_output:
  assumes "a < next_free w"
  shows "frame a (returned_object r) w (snd (process_output op (Some a) r w))"
proof (cases "untag r")
  case (Inl f)
  then show ?thesis by (simp add: process_output_def frame_refl)
next
  case (Inr tr)
  obtain tag r' where tr: "tr = (tag, r')" by (cases tr)
  obtain x w1 where tw: "to_windowed_value op (Some a) r' w = (x, w1)"
    by (cases "to_windowed_value op (Some a) r' w")
  have f1: "frame a (direct_object r') w w1"
    using frame_to_windowed_value [OF assms, of r' op] tw by simp
  have f2: "frame a (returned_object r) w w1"
    using f1 returned_object_untag Inr tr by (blast intro: frame_weaken)
  show ?thesis
  proof (cases x)
    case (Inl f)
    then show ?thesis using f2 Inr tr tw by (simp add: process_output_def)
  next
    case (Inr c)
    then have "snd (process_output op (Some a) r w) = snd (receive op tag c w1)"
      using \<open>untag r = Inr tr\<close> tr tw by (simp add: process_output_def)
    then show ?thesis
      using f2 frame_receive [of op tag c w1] lists_known_receive [of op tag c w1]
      by (simp add: frame_def)
  qed
qed

text \<open>Frames compose along a run, as long as the input object itself exists.\<close>

lemma frame_dispatch_all:
  assumes "a < next_free w"
  shows "next_free w \<le> next_free (snd (dispatch_all op (Some a) rs w)) \<and>
         (\<forall>b < next_free w.
            same_but_windows (cells (snd (dispatch_all op (Some a) rs w)) b) (cells w b) \<and>
            (lists_known w \<and>
             (\<forall>c \<in> set (List.map_filter returned_object rs).
                c < next_free w \<and> c \<noteq> b \<and> \<not> shares w b c) \<longrightarrow>
               cells (snd (dispatch_all op (Some a) rs w)) b = cells w b) \<and>
            (length (windows (cells w a)) = 1 \<longrightarrow>
               cells (snd (dispatch_all op (Some a) rs w)) b = cells w b))"
  using assms
proof (induction rs arbitrary: w)
  case Nil
  then show ?case by (simp add: same_but_windows_def)
next
  case (Cons r rs)
  obtain x w1 where po: "process_output op (Some a) r w = (x, w1)"
    by (cases "process_output op (Some a) r w")
  have f: "frame a (returned_object r) w w1"
    using frame_process_output [OF Cons.prems, of r op] po by simp
  have a1: "a < next_free w1" using f Cons.prems by (simp add: frame_def)
  note IH = Cons.IH [OF a1]
  have mf: "set (List.map_filter returned_object (r # rs)) =
            (case returned_object r of None \<Rightarrow> {} | Some c \<Rightarrow> {c}) \<union> set (List.map_filter returned_object rs)"
    by (simp add: List.map_filter_simps split: option.splits)
  have sh: "\<And>b c. b < next_free w \<Longrightarrow> c < next_free w \<Longrightarrow> shares w1 b c = shares w b c"
    using f by (simp add: frame_def shares_def)
  show ?case
  proof (cases x)
    case (Inl e)
    then have "snd (dispatch_all op (Some a) (r # rs) w) = w1" using po by simp
    then show ?thesis using f mf by (auto simp: frame_def split: option.splits)
  next
    case (Inr u)
    then have eq: "snd (dispatch_all op (Some a) (r # rs) w) = snd (dispatch_all op (Some a) rs w1)"
      using po by simp
    show ?thesis unfolding eq
    proof (intro conjI allI impI)
      show "next_free w \<le> next_free (snd (dispatch_all op (Some a) rs w1))"
        using IH f by (simp add: frame_def)
    next
      fix b assume b: "b < next_free w"
      then have b1: "b < next_free w1" using f by (simp add: frame_def)
      show "same_but_windows (cells (snd (dispatch_all op (Some a) rs w1)) b) (cells w b)"
        using IH b1 f b by (simp add: frame_def same_but_windows_def)
    next
      fix b assume b: "b < next_free w"
        and nb: "lists_known w \<and>
                 (\<forall>c \<in> set (List.map_filter returned_object (r # rs)).
                    c < next_free w \<and> c \<noteq> b \<and> \<not> shares w b c)"
      then have b1: "b < next_free w1" using f by (simp add: frame_def)
      have lk1: "lists_known w1" using f nb by (simp add: frame_def)
      have "\<forall>c. returned_object r = Some c \<longrightarrow> c \<noteq> b \<and> \<not> shares w b c" using nb mf by auto
      then have u1: "cells w1 b = cells w b" using f b nb by (simp add: frame_def)
      have rest: "\<forall>c \<in> set (List.map_filter returned_object rs).
                    c < next_free w \<and> c \<noteq> b \<and> \<not> shares w b c"
        using nb mf by auto
      have le: "next_free w \<le> next_free w1" using f by (simp add: frame_def)
      have "\<forall>c \<in> set (List.map_filter returned_object rs).
              c < next_free w1 \<and> c \<noteq> b \<and> \<not> shares w1 b c"
      proof
        fix c assume "c \<in> set (List.map_filter returned_object rs)"
        then have c: "c < next_free w \<and> c \<noteq> b \<and> \<not> shares w b c" using rest by blast
        then show "c < next_free w1 \<and> c \<noteq> b \<and> \<not> shares w1 b c"
          using sh [of b c] b le by simp
      qed
      then show "cells (snd (dispatch_all op (Some a) rs w1)) b = cells w b"
        using IH b1 lk1 u1 by simp
    next
      fix b assume b: "b < next_free w" and one: "length (windows (cells w a)) = 1"
      then have b1: "b < next_free w1" using f by (simp add: frame_def)
      have "cells w1 a = cells w a" using f one Cons.prems by (simp add: frame_def)
      then have "length (windows (cells w1 a)) = 1" using one by simp
      then show "cells (snd (dispatch_all op (Some a) rs w1)) b = cells w b"
        using IH b1 f b one by (simp add: frame_def)
    qed
  qed
qed

lemma cells_add_input: "cells (add_input op n w) = cells w"
  by (simp add: add_input_def)

lemma snd_process_outputs_cells:
  "cells (snd (process_outputs op inp res w)) =
     (if res = ResultsNone then cells w else cells (snd (dispatch_all op inp (results_items res) w)))"
  by (auto simp: process_outputs_def cells_add_input split: prod.splits sum.splits option.splits)

lemma cells_dispatch_all_single:
  "cells (snd (dispatch_all op inp [r] w)) = cells (snd (process_output op inp r w))"
  by (auto split: prod.splits sum.splits)

lemma process_output_multiplies:
  assumes "r = PRef c \<or> r = TaggedOutput (PStr s) (PRef c)"
    and "length (windows (cells w a)) \<noteq> 1" and "d = c \<or> shares w d c"
  shows "windows (cells (snd (process_output op (Some a) r w)) d) =
           concat (replicate (length (windows (cells w a))) (windows (cells w c)))"
  using assms
  by (cases "window_list w c")
     (auto simp: process_output_def receive_def multiply_windows_def shares_def
        split: option.splits)

text \<open>
  Claim C3, as the code has it. \<open>process_outputs\<close> never changes the value,
  timestamp or pane of a WindowedValue that exists when it is called, whatever the
  results are and whether it returns or raises. It changes no field at all when the
  input carries exactly one window. When every WindowedValue among the results
  exists before the call, it changes no field of an object that is not among the
  results and whose windows are not the same list as the windows of one of them.
  When the input carries a number \<open>n\<close> of windows other than one, every
  iteration of the loop on a result that is itself a WindowedValue (tagged or not)
  replaces the windows of that object, and of every object whose windows are the
  same list, by the \<open>n\<close>-fold repetition of the object's windows; so does the whole
  of \<open>process_outputs\<close> on a list, tuple or generator with that single result.
\<close>

theorem process_outputs_changes_windows_only:
  assumes "a < next_free w" and "b < next_free w"
  shows "same_but_windows (cells (snd (process_outputs op (Some a) res w)) b) (cells w b) \<and>
         (length (windows (cells w a)) = 1 \<longrightarrow>
            cells (snd (process_outputs op (Some a) res w)) b = cells w b) \<and>
         (lists_known w \<and>
          (\<forall>c \<in> set (List.map_filter returned_object (results_items res)).
             c < next_free w \<and> c \<noteq> b \<and> \<not> shares w b c) \<longrightarrow>
            cells (snd (process_outputs op (Some a) res w)) b = cells w b) \<and>
         ((r = PRef c \<or> r = TaggedOutput (PStr s) (PRef c)) \<and>
          length (windows (cells w a)) \<noteq> 1 \<and> (d = c \<or> shares w d c) \<longrightarrow>
            windows (cells (snd (process_output op (Some a) r w)) d) =
              concat (replicate (length (windows (cells w a))) (windows (cells w c))) \<and>
            (res \<noteq> ResultsNone \<and> results_items res = [r] \<longrightarrow>
               windows (cells (snd (process_outputs op (Some a) res w)) d) =
                 concat (replicate (length (windows (cells w a))) (windows (cells w c)))))"
proof -
  have step: "(r = PRef c \<or> r = TaggedOutput (PStr s) (PRef c)) \<and>
          length (windows (cells w a)) \<noteq> 1 \<and> (d = c \<or> shares w d c) \<longrightarrow>
            windows (cells (snd (process_output op (Some a) r w)) d) =
              concat (replicate (length (windows (cells w a))) (windows (cells w c))) \<and>
            (res \<noteq> ResultsNone \<and> results_items res = [r] \<longrightarrow>
               windows (cells (snd (process_outputs op (Some a) res w)) d) =
                 concat (replicate (length (windows (cells w a))) (windows (cells w c))))"
    using process_output_multiplies [of r c s w a d op]
    by (simp add: snd_process_outputs_cells cells_dispatch_all_single del: dispatch_all.simps)
  have fr: "same_but_windows (cells (snd (process_outputs op (Some a) res w)) b) (cells w b) \<and>
         (length (windows (cells w a)) = 1 \<longrightarrow>
            cells (snd (process_outputs op (Some a) res w)) b = cells w b) \<and>
         (lists_known w \<and>
          (\<forall>c \<in> set (List.map_filter returned_object (results_items res)).
             c < next_free w \<and> c \<noteq> b \<and> \<not> shares w b c) \<longrightarrow>
            cells (snd (process_outputs op (Some a) res w)) b = cells w b)"
    using frame_dispatch_all [OF assms(1), of op "results_items res"] assms(2)
    by (cases "res = ResultsNone") (simp_all add: snd_process_outputs_cells same_but_windows_def)
  show ?thesis using step fr by blast
qed

text \<open>
  Claim C3 as stated fails: the input at address 0 carries two windows, the result
  is the WindowedValue at address 1, and after \<open>process_outputs\<close> that object's
  windows are no longer the ones it was constructed with.
\<close>

theorem result_object_windows_multiplied:
  "windows (cells example_world 1) = [GlobalWindow] \<and>
   windows (cells (snd (process_outputs example_processor (Some 0) (ResultsList [PRef 1])
      example_world)) 1) = [GlobalWindow, GlobalWindow]"
  by (simp add: process_outputs_def process_output_def receive_def multiply_windows_def
      add_input_def example_world_def example_input_def example_output_def example_processor_def)

text \<open>An object that is yielded twice has its windows multiplied twice.\<close>

lemma result_object_yielded_twice:
  "windows (cells (snd (process_outputs example_processor (Some 0) (ResultsTuple [PRef 1, PRef 1])
      example_world)) 1) = [GlobalWindow, GlobalWindow, GlobalWindow, GlobalWindow]"
  by (simp add: process_outputs_def process_output_def receive_def multiply_windows_def
      add_input_def example_world_def example_input_def example_output_def example_processor_def)

theorem process_outputs_changes_windows_only_witness:
  "same_but_windows
     (cells (snd (process_outputs example_processor (Some 0) (ResultsList [PRef 1]) shared_world)) 1)
     example_output \<and>
   windows (cells (snd (process_outputs example_processor (Some 0) (ResultsList [PRef 1])
      shared_world)) 1) = [GlobalWindow, GlobalWindow] \<and>
   windows (cells (snd (process_outputs example_processor (Some 0) (ResultsList [PRef 1])
      shared_world)) 2) = [GlobalWindow, GlobalWindow] \<and>
   cells (snd (process_outputs example_processor (Some 0) (ResultsList [PRef 1]) shared_world)) 0 =
     example_input \<and>
   cells (snd (process_outputs example_processor (Some 1) (ResultsList [PRef 0]) shared_world)) 2 =
     with_value example_output (PInt 9)"
  using process_outputs_changes_windows_only [of 0 shared_world 1 example_processor
      "ResultsList [PRef 1]" "PRef 1" 1 "[]" 1]
    process_outputs_changes_windows_only [of 0 shared_world 1 example_processor
      "ResultsList [PRef 1]" "PRef 1" 1 "[]" 2]
    process_outputs_changes_windows_only [of 0 shared_world 0 example_processor
      "ResultsList [PRef 1]" "PRef 1" 1 "[]" 1]
    process_outputs_changes_windows_only [of 1 shared_world 2 example_processor
      "ResultsList [PRef 0]" "PRef 0" 0 "[]" 0]
  by (simp add: shared_world_def example_world_def example_input_def example_output_def
      lists_known_def shares_def List.map_filter_simps with_value_def same_but_windows_def)

section \<open>Start of a bundle\<close>

text \<open>
  Claim C9, as the code has it. When \<^verbatim>\<open>start_bundle\<close> returns \<^verbatim>\<open>None\<close> the
  invocation succeeds; when it returns anything else, an empty list or a generator
  that yields nothing included, the invocation is rejected with a fault, which is
  a RuntimeError for every list and every generator. In all cases no receiver is
  handed anything.
\<close>

theorem start_bundle_only_None_accepted:
  assumes "output_processor self = Some opr"
    and "dofn_start_bundle X (user w) = (Inr res, u1)"
  shows "(res = ResultsNone \<longrightarrow> fst (invoke_start_bundle X self w) = Inr ()) \<and>
         (res \<noteq> ResultsNone \<longrightarrow> (\<exists>f. fst (invoke_start_bundle X self w) = Inl f)) \<and>
         ((\<exists>rs. res = ResultsList rs) \<or> (\<exists>rs g. res = ResultsGenerator rs g) \<longrightarrow>
            (\<exists>f. fst (invoke_start_bundle X self w) = Inl f \<and> exn_kind f = RuntimeError)) \<and>
         received (snd (invoke_start_bundle X self w)) = received w"
  using assms
  by (cases res) (auto simp: invoke_start_bundle_def start_bundle_outputs_def new_fault_def)

theorem start_bundle_only_None_accepted_witness:
  "(\<exists>f. fst (invoke_start_bundle example_externals plain_invoker example_world) = Inl f \<and>
        exn_kind f = RuntimeError) \<and>
   received (snd (invoke_start_bundle example_externals plain_invoker example_world)) = [] \<and>
   fst (invoke_start_bundle (example_externals\<lparr>dofn_start_bundle := \<lambda>u. (Inr ResultsNone, u)\<rparr>)
          plain_invoker example_world) = Inr ()"
  using start_bundle_only_None_accepted [of plain_invoker example_processor example_externals
      example_world "ResultsList []" 0]
    start_bundle_only_None_accepted [of plain_invoker example_processor
      "example_externals\<lparr>dofn_start_bundle := \<lambda>u. (Inr ResultsNone, u)\<rparr>"
      example_world ResultsNone 0]
  by (simp add: plain_invoker_def example_externals_def example_world_def)

text \<open>
  Claim C9 as stated fails: a \<^verbatim>\<open>start_bundle\<close> that returns the empty list produces
  no output, and the invocation is rejected all the same.
\<close>

theorem empty_start_bundle_output_rejected:
  "results_items (ResultsList []) = [] \<and>
   dofn_start_bundle example_externals (user example_world) = (Inr (ResultsList []), 0) \<and>
   fst (invoke_start_bundle example_externals plain_invoker example_world) =
     Inl (new_fault RuntimeError ''Start Bundle should not output any elements but got %s'')"
  by (simp add: invoke_start_bundle_def start_bundle_outputs_def plain_invoker_def
      example_externals_def example_world_def)

section \<open>The choice of the invoker\<close>

lemma plan_step_fault: "plan_step ik acc ad = Inl f \<Longrightarrow> exn_kind f = ValueError"
  by (auto simp: plan_step_def new_fault_def split: prod.splits if_splits option.splits pyval.splits param.splits)

lemma plan_loop_fault: "plan_loop ik ads acc = Inl f \<Longrightarrow> exn_kind f = ValueError"
proof (induction ads arbitrary: acc)
  case Nil
  then show ?case by simp
next
  case (Cons ad ads)
  then show ?case by (auto split: sum.splits dest: plan_step_fault)
qed

lemma PerWindowInvoker_init_fault:
  "PerWindowInvoker_init op sig ctx sis ia ik usc bfp = Inl f \<Longrightarrow> exn_kind f = ValueError"
  unfolding PerWindowInvoker_init_def Let_def
  by (auto split: sum.splits prod.splits dest: plan_loop_fault)

lemma is_simple_invoke_process:
  "is_simple (fst (snd (invoke_process X i a rt w))) = is_simple i"
  by (cases i) (simp_all add: invoke_process_def is_simple_def split: prod.splits)

text \<open>
  Claim C6, as the code has it. \<open>create_invoker\<close> returns a SimpleInvoker exactly
  when \<open>process_invocation\<close> is false, or there are no side inputs, no extra
  positional or keyword arguments, no default values among the parameters of the
  process method, and the DoFn is not stateful. In every other case it returns a
  PerWindowInvoker, unless the constructor of that invoker raises its ValueError.
  The element is no argument of the choice, and processing an element through the
  bundle driver leaves the kind of its invoker as it is.
\<close>

theorem create_invoker_selection:
  "((\<exists>b. create_invoker sig op ctx sis ia ik pinv usc bfp = Inr (Simple b)) \<longleftrightarrow>
      (\<not> pinv \<or> (sis = [] \<and> ia = [] \<and> ik = [] \<and> defaults (process_method sig) = []
                 \<and> \<not> is_stateful_dofn sig))) \<and>
   ((\<exists>b. create_invoker sig op ctx sis ia ik pinv usc bfp = Inr (Simple b)) \<or>
    (\<exists>p. create_invoker sig op ctx sis ia ik pinv usc bfp = Inr (PerWindow p)) \<or>
    (\<exists>f. create_invoker sig op ctx sis ia ik pinv usc bfp = Inl f \<and> exn_kind f = ValueError)) \<and>
   is_simple (do_fn_invoker (fst (snd (process X self a w)))) = is_simple (do_fn_invoker self)"
proof -
  have sel: "is_simple (do_fn_invoker (fst (snd (process X self a w)))) = is_simple (do_fn_invoker self)"
    using is_simple_invoke_process [of X "do_fn_invoker self" a None w]
    by (auto simp: process_def split: prod.splits sum.splits)
  show ?thesis
    using sel PerWindowInvoker_init_fault [of op sig ctx sis ia ik usc bfp]
    by (cases "PerWindowInvoker_init op sig ctx sis ia ik usc bfp")
       (auto simp: create_invoker_def Let_def)
qed

theorem create_invoker_selection_witness:
  "(\<exists>b. create_invoker (DoFnSignature_fields plain_dofn) (Some example_processor) True [] [] []
           True False PBundleFinalizer = Inr (Simple b)) \<and>
   \<not> (\<exists>b. create_invoker (DoFnSignature_fields window_dofn) (Some example_processor) True [] [] []
           True False PBundleFinalizer = Inr (Simple b))"
  using create_invoker_selection [of "DoFnSignature_fields plain_dofn" "Some example_processor"
      True "[]" "[]" "[]" True False PBundleFinalizer example_externals
      "\<lparr>step_name = None, do_fn_invoker = Simple plain_invoker\<rparr>" 0 example_world]
    create_invoker_selection [of "DoFnSignature_fields window_dofn" "Some example_processor"
      True "[]" "[]" "[]" True False PBundleFinalizer example_externals
      "\<lparr>step_name = None, do_fn_invoker = Simple plain_invoker\<rparr>" 0 example_world]
  by (simp add: DoFnSignature_fields_def MethodWrapper_init_def get_function_arguments_def
      plain_dofn_def window_dofn_def is_stateful_dofn_def last_n_def classify_def)

text \<open>
  Claim C6 as stated fails: the process method of \<open>window_dofn\<close> declares the
  window parameter, and with \<open>process_invocation\<close> false a SimpleInvoker is
  selected for it.
\<close>

theorem simple_invoker_despite_window_param:
  "defaults (process_method (DoFnSignature_fields window_dofn)) = [PParam WindowParam] \<and>
   create_invoker (DoFnSignature_fields window_dofn) (Some example_processor) True [] [] []
     False False PBundleFinalizer =
   Inr (Simple \<lparr>output_processor = Some example_processor,
                signature = DoFnSignature_fields window_dofn,
                user_state_context = False, bundle_finalizer_param = PNone\<rparr>)"
  by (simp add: create_invoker_def DoFnSignature_fields_def MethodWrapper_init_def
      get_function_arguments_def plain_dofn_def window_dofn_def last_n_def classify_def)

section \<open>Validation of a signature\<close>

lemma classify_args_defaults: "args (classify m kv) = args m \<and> defaults (classify m kv) = defaults m"
  by (auto simp: classify_def split: prod.splits pyval.splits param.splits)

lemma foldl_classify_args_defaults:
  "args (foldl classify m kvs) = args m \<and> defaults (foldl classify m kvs) = defaults m"
  by (induction kvs arbitrary: m) (simp_all add: classify_args_defaults)

lemma MethodWrapper_init_args_defaults:
  "args (MethodWrapper_init d) = required d @ map fst (optional d) \<and>
   defaults (MethodWrapper_init d) = map snd (optional d)"
  by (simp add: MethodWrapper_init_def get_function_arguments_def foldl_classify_args_defaults)

lemma length_remdups_distinct: "length xs \<noteq> length (remdups xs) \<longleftrightarrow> \<not> distinct xs"
  by (metis distinct_remdups length_remdups_eq remdups_id_iff_distinct)

lemma validate_process_iff:
  "validate_process pid m = None \<longleftrightarrow> distinct (List.map_filter pid (defaults m))"
  by (simp add: validate_process_def Let_def length_remdups_distinct)

lemma validate_process_kind: "validate_process pid m = Some f \<Longrightarrow> exn_kind f = ValueError"
  by (auto simp: validate_process_def Let_def new_fault_def split: if_splits)

lemma validate_bundle_method_iff:
  "validate_bundle_method pps m = None \<longleftrightarrow> (\<forall>p \<in> set pps. p \<notin> set (defaults m))"
  by (auto simp: validate_bundle_method_def)

lemma validate_bundle_method_kind: "validate_bundle_method pps m = Some f \<Longrightarrow> exn_kind f = ValueError"
  by (auto simp: validate_bundle_method_def new_fault_def split: if_splits)

lemma validate_stateful_dofn_iff:
  "validate_stateful_dofn pid fn = None \<longleftrightarrow>
     (\<forall>d \<in> set (lifecycle_decls fn). distinct (List.map_filter pid (map snd (optional d)))) \<and>
     stateful_spec_fault fn = None"
  by (auto simp: validate_stateful_dofn_def MethodWrapper_init_args_defaults)

lemma validate_stateful_dofn_kind:
  "\<exists>d \<in> set (lifecycle_decls fn). \<not> distinct (List.map_filter pid (map snd (optional d))) \<Longrightarrow>
   \<exists>f. validate_stateful_dofn pid fn = Some f \<and> exn_kind f = ValueError"
  by (auto simp: validate_stateful_dofn_def MethodWrapper_init_args_defaults new_fault_def)

lemma timer_methods_fields:
  "m \<in> snd ` set (timer_methods (DoFnSignature_fields fn)) \<Longrightarrow>
   \<exists>d \<in> set (lifecycle_decls fn). m = MethodWrapper_init d"
proof -
  assume "m \<in> snd ` set (timer_methods (DoFnSignature_fields fn))"
  then obtain spec d where "(spec, d) \<in> set (timer_specs fn)" and m: "m = MethodWrapper_init d"
    by (auto simp: DoFnSignature_fields_def split: if_splits)
  then have "d \<in> set (lifecycle_decls fn)" by (force simp: lifecycle_decls_def)
  then show ?thesis using m by blast
qed

text \<open>
  Claim C7. Constructing the signature of a DoFn fails with a ValueError if two
  default values of one of its methods (a lifecycle method or a timer callback) have
  the same \<open>param_id\<close>, or if a member of \<open>DoFnProcessParams\<close> is a default value of
  \<^verbatim>\<open>start_bundle\<close> or of \<^verbatim>\<open>finish_bundle\<close>. The checks run inside the constructor,
  which returns a signature only when all of them pass: a signature that was
  constructed has pairwise distinct roles in every lifecycle method and in every
  timer callback, and no process-only parameter in either bundle method.
\<close>

theorem signature_validation:
  "((\<exists>d \<in> set (lifecycle_decls fn). \<not> distinct (List.map_filter param_id (map snd (optional d)))) \<or>
    (\<exists>p \<in> set DoFnProcessParams. p \<in> snd ` set (optional (start_bundle_decl fn))) \<or>
    (\<exists>p \<in> set DoFnProcessParams. p \<in> snd ` set (optional (finish_bundle_decl fn)))
    \<longrightarrow> (\<exists>f. DoFnSignature_init param_id DoFnProcessParams fn = Inl f \<and> exn_kind f = ValueError)) \<and>
   (DoFnSignature_init param_id DoFnProcessParams fn = Inr sig \<longrightarrow>
      sig = DoFnSignature_fields fn \<and>
      (\<forall>m \<in> {process_method sig, start_bundle_method sig, finish_bundle_method sig,
              setup_lifecycle_method sig, teardown_lifecycle_method sig} \<union>
             snd ` set (timer_methods sig).
         distinct (List.map_filter param_id (defaults m))) \<and>
      (\<forall>p \<in> set DoFnProcessParams.
         p \<notin> set (defaults (start_bundle_method sig)) \<and>
         p \<notin> set (defaults (finish_bundle_method sig))))"
proof -
  let ?pm = "MethodWrapper_init (process_decl fn)"
  let ?sm = "MethodWrapper_init (start_bundle_decl fn)"
  let ?fm = "MethodWrapper_init (finish_bundle_decl fn)"
  let ?dup = "\<exists>d \<in> set (lifecycle_decls fn). \<not> distinct (List.map_filter param_id (map snd (optional d)))"
  let ?ps = "\<exists>p \<in> set DoFnProcessParams. p \<in> snd ` set (optional (start_bundle_decl fn))"
  let ?pf = "\<exists>p \<in> set DoFnProcessParams. p \<in> snd ` set (optional (finish_bundle_decl fn))"
  have ds: "set (defaults ?sm) = snd ` set (optional (start_bundle_decl fn))"
    and df: "set (defaults ?fm) = snd ` set (optional (finish_bundle_decl fn))"
    by (simp_all add: MethodWrapper_init_args_defaults)
  have fields: "process_method (DoFnSignature_fields fn) = ?pm"
    "start_bundle_method (DoFnSignature_fields fn) = ?sm"
    "finish_bundle_method (DoFnSignature_fields fn) = ?fm"
    "setup_lifecycle_method (DoFnSignature_fields fn) = MethodWrapper_init (setup_decl fn)"
    "teardown_lifecycle_method (DoFnSignature_fields fn) = MethodWrapper_init (teardown_decl fn)"
    by (simp_all add: DoFnSignature_fields_def)
  have five: "process_decl fn \<in> set (lifecycle_decls fn)"
    "start_bundle_decl fn \<in> set (lifecycle_decls fn)"
    "finish_bundle_decl fn \<in> set (lifecycle_decls fn)"
    "setup_decl fn \<in> set (lifecycle_decls fn)"
    "teardown_decl fn \<in> set (lifecycle_decls fn)"
    by (simp_all add: lifecycle_decls_def)
  show ?thesis
  proof (cases "validate_process param_id ?pm")
    case (Some f)
    then show ?thesis
      using validate_process_kind [OF Some]
      by (simp add: DoFnSignature_init_def validate_def)
  next
    case None
    note vp = this
    show ?thesis
    proof (cases "validate_bundle_method DoFnProcessParams ?sm")
      case (Some f)
      then show ?thesis
        using validate_bundle_method_kind [OF Some] vp
        by (simp add: DoFnSignature_init_def validate_def)
    next
      case None
      note vs = this
      show ?thesis
      proof (cases "validate_bundle_method DoFnProcessParams ?fm")
        case (Some f)
        then show ?thesis
          using validate_bundle_method_kind [OF Some] vp vs
          by (simp add: DoFnSignature_init_def validate_def)
      next
        case None
        have a: "\<forall>p \<in> set DoFnProcessParams. p \<notin> set (defaults ?sm)"
          using vs by (simp add: validate_bundle_method_iff)
        have b: "\<forall>p \<in> set DoFnProcessParams. p \<notin> set (defaults ?fm)"
          using None by (simp add: validate_bundle_method_iff)
        have nps: "\<not> ?ps" and npf: "\<not> ?pf" using a b ds df by auto
        have init: "DoFnSignature_init param_id DoFnProcessParams fn =
                      (case validate_stateful_dofn param_id fn of Some f \<Rightarrow> Inl f
                       | None \<Rightarrow> Inr (DoFnSignature_fields fn))"
          using vp vs None by (simp add: DoFnSignature_init_def validate_def)
        show ?thesis
        proof (intro conjI impI)
          assume "?dup \<or> ?ps \<or> ?pf"
          then have ?dup using nps npf by blast
          then obtain f where "validate_stateful_dofn param_id fn = Some f" "exn_kind f = ValueError"
            using validate_stateful_dofn_kind [of fn param_id] by blast
          then show "\<exists>f. DoFnSignature_init param_id DoFnProcessParams fn = Inl f \<and> exn_kind f = ValueError"
            using init by simp
        next
          assume ok: "DoFnSignature_init param_id DoFnProcessParams fn = Inr sig"
          then have vn: "validate_stateful_dofn param_id fn = None"
            using init by (auto split: option.splits)
          show s: "sig = DoFnSignature_fields fn"
            using ok init by (auto split: option.splits)
          have all: "\<And>d. d \<in> set (lifecycle_decls fn) \<Longrightarrow>
                       distinct (List.map_filter param_id (defaults (MethodWrapper_init d)))"
            using vn by (simp add: validate_stateful_dofn_iff MethodWrapper_init_args_defaults)
          show "\<forall>m \<in> {process_method sig, start_bundle_method sig, finish_bundle_method sig,
                      setup_lifecycle_method sig, teardown_lifecycle_method sig} \<union>
                     snd ` set (timer_methods sig).
                  distinct (List.map_filter param_id (defaults m))"
          proof
            fix m
            assume "m \<in> {process_method sig, start_bundle_method sig, finish_bundle_method sig,
                      setup_lifecycle_method sig, teardown_lifecycle_method sig} \<union>
                     snd ` set (timer_methods sig)"
            then have "\<exists>d \<in> set (lifecycle_decls fn). m = MethodWrapper_init d"
              unfolding s using fields five timer_methods_fields [of m fn] by auto
            then show "distinct (List.map_filter param_id (defaults m))" using all by blast
          qed
          show "\<forall>p \<in> set DoFnProcessParams.
                  p \<notin> set (defaults (start_bundle_method sig)) \<and>
                  p \<notin> set (defaults (finish_bundle_method sig))"
            using s a b fields by simp
        qed
      qed
    qed
  qed
qed

theorem signature_validation_witness:
  "(\<exists>f. DoFnSignature_init example_param_id example_DoFnProcessParams repeated_process_dofn = Inl f \<and>
        exn_kind f = ValueError) \<and>
   (\<exists>f. DoFnSignature_init example_param_id example_DoFnProcessParams repeated_setup_dofn = Inl f \<and>
        exn_kind f = ValueError) \<and>
   (\<exists>f. DoFnSignature_init example_param_id example_DoFnProcessParams
          window_in_start_bundle_dofn = Inl f \<and>
        exn_kind f = ValueError) \<and>
   distinct (List.map_filter example_param_id
     (defaults (process_method (DoFnSignature_fields window_dofn))))"
proof -
  have ok: "DoFnSignature_init example_param_id example_DoFnProcessParams window_dofn =
              Inr (DoFnSignature_fields window_dofn)"
    by (simp add: DoFnSignature_init_def validate_def validate_process_def
        validate_bundle_method_def validate_stateful_dofn_def lifecycle_decls_def
        MethodWrapper_init_args_defaults window_dofn_def plain_dofn_def
        no_params_def example_DoFnProcessParams_def List.map_filter_simps)
  show ?thesis
    using signature_validation [of repeated_process_dofn example_param_id example_DoFnProcessParams
        "DoFnSignature_fields repeated_process_dofn"]
      signature_validation [of repeated_setup_dofn example_param_id example_DoFnProcessParams
        "DoFnSignature_fields repeated_setup_dofn"]
      signature_validation [of window_in_start_bundle_dofn example_param_id
        example_DoFnProcessParams "DoFnSignature_fields window_in_start_bundle_dofn"]
      signature_validation [of window_dofn example_param_id example_DoFnProcessParams
        "DoFnSignature_fields window_dofn"] ok
    by (simp add: repeated_process_dofn_def repeated_setup_dofn_def
        window_in_start_bundle_dofn_def plain_dofn_def example_DoFnProcessParams_def
        lifecycle_decls_def List.map_filter_simps)
qed

section \<open>What an invocation does to the invoker\<close>

lemma same_static_refl: "same_static p p"
  by (simp add: same_static_def)

lemma same_static_trans: "same_static p q \<Longrightarrow> same_static q r \<Longrightarrow> same_static p r"
  by (simp add: same_static_def)

lemma same_static_prepare_args: "same_static self (snd (prepare_args X self wv aa))"
  by (auto simp: prepare_args_def same_static_def split: list.splits sum.splits prod.splits)

lemma same_static_store_plan: "same_static self (store_plan al as ks self)"
  by (simp add: store_plan_def same_static_def)

lemma after_process_self: "fst (snd (after_process X self a w)) = self"
  by (auto simp: after_process_def Let_def split: option.splits prod.splits sum.splits)

lemma after_process_invocations:
  "invocations (snd (snd (after_process X self a w))) = invocations w"
  by (auto simp: after_process_def Let_def alloc_def split: option.splits prod.splits sum.splits)

lemma call_and_emit_self: "fst (snd (call_and_emit X self a as ks op w)) = self"
  by (auto simp: call_and_emit_def after_process_self split: option.splits prod.splits sum.splits)

lemma same_static_per_window:
  "same_static self (fst (snd (invoke_process_per_window X self a aa ak op w)))"
proof -
  obtain r self1 where pa: "prepare_args X self (cells w a) aa = (r, self1)"
    by (cases "prepare_args X self (cells w a) aa")
  have s1: "same_static self self1"
    using same_static_prepare_args [of self X "cells w a" aa] pa by simp
  show ?thesis
  proof (cases r)
    case (Inl f)
    then show ?thesis using pa s1 by (simp add: invoke_process_per_window_def)
  next
    case (Inr q)
    obtain as ks window aliased where q: "q = (as, ks, window, aliased)" by (cases q)
    show ?thesis
    proof (cases "extract_key self1 (cells w a)")
      case (Inl f)
      then show ?thesis using pa Inr q s1 by (simp add: invoke_process_per_window_def)
    next
      case key: (Inr key)
      obtain fo as1 where fp:
        "fill_placeholders self1 (cells w a) key window (placeholders self1) as = (fo, as1)"
        by (cases "fill_placeholders self1 (cells w a) key window (placeholders self1) as")
      show ?thesis
      proof (cases fo)
        case None
        then show ?thesis
          using pa Inr q key fp
            same_static_trans [OF s1 same_static_store_plan [of self1 aliased as1 "merge_kwargs ak ks"]]
          by (simp add: invoke_process_per_window_def call_and_emit_self)
      next
        case (Some f)
        then show ?thesis
          using pa Inr q key fp
            same_static_trans [OF s1 same_static_store_plan [of self1 aliased as1 ks]]
          by (simp add: invoke_process_per_window_def)
      qed
    qed
  qed
qed

lemma same_static_explode:
  "same_static self (fst (snd (explode X self a wds aa ak op w)))"
proof (induction wds arbitrary: self w)
  case Nil
  then show ?case by (simp add: same_static_refl)
next
  case (Cons wd wds)
  obtain b w1 where al: "alloc (WindowedValue (value_wv (cells w a)) (timestamp (cells w a)) [wd]) None w = (b, w1)"
    by (cases "alloc (WindowedValue (value_wv (cells w a)) (timestamp (cells w a)) [wd]) None w")
  obtain r self2 w2 where pw: "invoke_process_per_window X self b aa ak op w1 = (r, self2, w2)"
    by (cases "invoke_process_per_window X self b aa ak op w1")
  have s2: "same_static self self2"
    using same_static_per_window [of self X b aa ak op w1] pw by simp
  show ?case
  proof (cases r)
    case (Inl f)
    then show ?thesis using al pw s2 by simp
  next
    case (Inr d)
    then show ?thesis
      using al pw same_static_trans [OF s2 Cons.IH [of self2 w2]] by simp
  qed
qed

lemma derive_tracker_supplied: "derive_tracker X self a (Some t) w = (Inr (Some t), w)"
  by (simp add: derive_tracker_def)

lemma derive_tracker_frame:
  "cells (snd (derive_tracker X self a rt w)) = cells w \<and>
   invocations (snd (derive_tracker X self a rt w)) = invocations w"
  by (auto simp: derive_tracker_def invoke_initial_restriction_def invoke_create_tracker_def
      split: option.splits prod.splits sum.splits)

lemma reset_estimator_ok:
  assumes "invoker_watermark_estimator self = None \<or> (\<forall>u. \<exists>u'. estimator_reset X u = (Inr (), u'))"
  shows "\<exists>ks w1. reset_estimator X self ak w = (Inr ks, w1)"
proof (cases "invoker_watermark_estimator self")
  case None
  then show ?thesis by (simp add: reset_estimator_def)
next
  case (Some e)
  with assms obtain u' where "estimator_reset X (user w) = (Inr (), u')" by auto
  with Some show ?thesis by (simp add: reset_estimator_def)
qed

text \<open>The handle after the branch with a tracker: cleared by the \<^verbatim>\<open>finally\<close>, or
  never set when a guard raised.\<close>

lemma invoke_with_tracker_handle:
  assumes "threadsafe_restriction_tracker self = None"
    and "invoker_watermark_estimator self = None \<or> (\<forall>u. \<exists>u'. estimator_reset X u = (Inr (), u'))"
  shows "threadsafe_restriction_tracker (fst (snd (invoke_with_tracker X self a t op aa ak w))) = None"
proof -
  have sub: "\<And>n. \<exists>ks w1. reset_estimator X self
                (dict_set (PStr n) (RestrictionTrackerView t) ak) w = (Inr ks, w1)"
    using reset_estimator_ok [OF assms(2)] by simp
  show ?thesis
  proof (cases "restriction_provider_arg_name (process_method (signature self))")
    case None
    then show ?thesis using assms(1) by (simp add: invoke_with_tracker_def)
  next
    case (Some n)
    obtain ks w1 where re: "reset_estimator X self
                (dict_set (PStr n) (RestrictionTrackerView t) ak) w = (Inr ks, w1)"
      using sub by blast
    show ?thesis
      using Some re assms(1)
      by (simp add: invoke_with_tracker_def split: prod.splits)
  qed
qed

lemma invoke_process_PerWindow_handle:
  assumes "threadsafe_restriction_tracker self = None"
    and "invoker_watermark_estimator self = None \<or> (\<forall>u. \<exists>u'. estimator_reset X u = (Inr (), u'))"
  shows "threadsafe_restriction_tracker
           (fst (snd (invoke_process_PerWindow X self a rt gp aa ak w))) = None"
proof (cases "context_given self")
  case False
  then show ?thesis using assms(1) by (simp add: invoke_process_PerWindow_def)
next
  case True
  obtain r w1 where dt: "derive_tracker X self a rt (w\<lparr>context_element := Some a\<rparr>) = (r, w1)"
    by (cases "derive_tracker X self a rt (w\<lparr>context_element := Some a\<rparr>)")
  show ?thesis
  proof (cases r)
    case (Inl f)
    then show ?thesis using True dt assms(1) by (simp add: invoke_process_PerWindow_def)
  next
    case (Inr ot)
    show ?thesis
    proof (cases ot)
      case (Some t)
      then show ?thesis
        using True dt Inr invoke_with_tracker_handle [OF assms, of a t]
        by (simp add: invoke_process_PerWindow_def)
    next
      case None
      let ?op = "case gp of None \<Rightarrow> output_processor self | Some p \<Rightarrow> Some p"
      have e: "threadsafe_restriction_tracker
                 (fst (snd (explode X self a (windows (cells w1 a)) aa ak ?op w1))) = None"
        using same_static_explode [of self X a "windows (cells w1 a)" aa ak ?op w1] assms(1)
        by (simp add: same_static_def)
      have p: "threadsafe_restriction_tracker
                 (fst (snd (invoke_process_per_window X self a aa ak ?op w1))) = None"
        using same_static_per_window [of self X a aa ak ?op w1] assms(1)
        by (simp add: same_static_def)
      show ?thesis
        using True dt Inr None e p
        by (auto simp: invoke_process_PerWindow_def split: prod.splits sum.splits)
    qed
  qed
qed

section \<open>The example invokers, evaluated\<close>

lemma example_signature_fields:
  "process_method (DoFnSignature_fields window_dofn) =
     \<lparr>args = [''element'', ''w''], defaults = [PParam WindowParam],
      has_userstate_arguments = False, state_args_to_replace = [], timer_args_to_replace = [],
      timestamp_arg_name = None, window_arg_name = Some ''w'', key_arg_name = None,
      restriction_provider = None, restriction_provider_arg_name = None,
      watermark_estimator = None, watermark_estimator_arg_name = None\<rparr>"
  "process_method (DoFnSignature_fields splittable_dofn) =
     \<lparr>args = [''element'', ''tracker'', ''estimator''],
      defaults = [PParam (RestrictionParam ''provider''),
                  PParam (WatermarkEstimatorParam ''estimator'')],
      has_userstate_arguments = False, state_args_to_replace = [], timer_args_to_replace = [],
      timestamp_arg_name = None, window_arg_name = None, key_arg_name = None,
      restriction_provider = Some ''provider'', restriction_provider_arg_name = Some ''tracker'',
      watermark_estimator = Some ''estimator'',
      watermark_estimator_arg_name = Some ''estimator''\<rparr>"
  "process_method (DoFnSignature_fields splittable_window_dofn) =
     \<lparr>args = [''element'', ''w'', ''tracker''],
      defaults = [PParam WindowParam, PParam (RestrictionParam ''provider'')],
      has_userstate_arguments = False, state_args_to_replace = [], timer_args_to_replace = [],
      timestamp_arg_name = None, window_arg_name = Some ''w'', key_arg_name = None,
      restriction_provider = Some ''provider'', restriction_provider_arg_name = Some ''tracker'',
      watermark_estimator = None, watermark_estimator_arg_name = None\<rparr>"
  "is_stateful_dofn (DoFnSignature_fields window_dofn) = False"
  "is_stateful_dofn (DoFnSignature_fields splittable_dofn) = False"
  "is_stateful_dofn (DoFnSignature_fields splittable_window_dofn) = False"
  by (simp_all add: DoFnSignature_fields_def MethodWrapper_init_def get_function_arguments_def
      window_dofn_def splittable_dofn_def splittable_window_dofn_def plain_dofn_def last_n_def
      classify_def is_stateful_dofn_def)

lemma window_invoker_init:
  "PerWindowInvoker_init (Some example_processor) (DoFnSignature_fields window_dofn)
     True [] [] [] False PBundleFinalizer =
   Inr \<lparr>output_processor = Some example_processor,
        signature = DoFnSignature_fields window_dofn,
        user_state_context = False, bundle_finalizer_param = PBundleFinalizer,
        side_inputs = [], context_given = True, has_windowed_inputs = True,
        is_splittable = False, invoker_watermark_estimator = None,
        watermark_estimator_param = None, threadsafe_restriction_tracker = None,
        current_windowed_value = None, is_key_param_required = False,
        cache_globally_windowed_args = False,
        placeholders = [(0, ElementParam), (1, WindowParam)],
        args_for_process = [ArgPlaceholder ElementParam, ArgPlaceholder WindowParam],
        kwargs_for_process = []\<rparr>"
  by (simp add: PerWindowInvoker_init_def example_signature_fields Let_def last_n_def
      py_take_def py_drop_def plan_step_def append_placeholder_def append_next_def
      get_watermark_estimator_def is_splittable_dofn_def get_restriction_provider_def
      List.map_filter_simps enumerate_Suc_eq[of 0])

lemma splittable_invoker_init:
  "PerWindowInvoker_init (Some example_processor) (DoFnSignature_fields splittable_dofn)
     True [] [] [] False PBundleFinalizer =
   Inr \<lparr>output_processor = Some example_processor,
        signature = DoFnSignature_fields splittable_dofn,
        user_state_context = False, bundle_finalizer_param = PBundleFinalizer,
        side_inputs = [], context_given = True, has_windowed_inputs = False,
        is_splittable = True, invoker_watermark_estimator = Some ''estimator'',
        watermark_estimator_param = Some ''estimator'', threadsafe_restriction_tracker = None,
        current_windowed_value = None, is_key_param_required = False,
        cache_globally_windowed_args = True,
        placeholders = [(0, ElementParam)],
        args_for_process = [ArgPlaceholder ElementParam],
        kwargs_for_process = []\<rparr>"
  by (simp add: PerWindowInvoker_init_def example_signature_fields Let_def last_n_def
      py_take_def py_drop_def plan_step_def append_placeholder_def append_next_def
      get_watermark_estimator_def is_splittable_dofn_def get_restriction_provider_def
      List.map_filter_simps enumerate_Suc_eq[of 0])

lemma splittable_window_invoker_init:
  "PerWindowInvoker_init (Some example_processor) (DoFnSignature_fields splittable_window_dofn)
     True [] [] [] False PBundleFinalizer =
   Inr \<lparr>output_processor = Some example_processor,
        signature = DoFnSignature_fields splittable_window_dofn,
        user_state_context = False, bundle_finalizer_param = PBundleFinalizer,
        side_inputs = [], context_given = True, has_windowed_inputs = True,
        is_splittable = True, invoker_watermark_estimator = None,
        watermark_estimator_param = None, threadsafe_restriction_tracker = None,
        current_windowed_value = None, is_key_param_required = False,
        cache_globally_windowed_args = False,
        placeholders = [(0, ElementParam), (1, WindowParam)],
        args_for_process = [ArgPlaceholder ElementParam, ArgPlaceholder WindowParam],
        kwargs_for_process = []\<rparr>"
  by (simp add: PerWindowInvoker_init_def example_signature_fields Let_def last_n_def
      py_take_def py_drop_def plan_step_def append_placeholder_def append_next_def
      get_watermark_estimator_def is_splittable_dofn_def get_restriction_provider_def
      List.map_filter_simps enumerate_Suc_eq[of 0])

lemmas example_invokers =
  window_invoker_def [unfolded window_invoker_init sum.sel]
  splittable_invoker_def [unfolded splittable_invoker_init sum.sel]
  splittable_window_invoker_def [unfolded splittable_window_invoker_init sum.sel]

section \<open>Splitting the current element\<close>

text \<open>
  Claim C5. With a tracker handle and a current element, when the tracker accepts
  the split \<open>try_split\<close> returns the pair of a primary and a residual descriptor:
  two new WindowedValues that copy the current element and carry
  \<open>((element, restriction), size)\<close> with the size from the provider's
  \<open>restriction_size\<close>. The primary carries no watermark; the residual carries the
  watermark that the estimator reports in the state before the tracker's split runs
  (\<open>PNone\<close> without an estimator). Without a handle, without a current element,
  or when the tracker declines, the call returns nothing.
\<close>

theorem try_split_result:
  "(threadsafe_restriction_tracker self = Some t \<and> current_windowed_value self = Some a \<and>
    tracker_try_split X t fraction (user w) = (Some (primary, residual), u1) \<longrightarrow>
      fst (try_split X self fraction w) =
        Some (((next_free w, PNone), PNone),
              ((Suc (next_free w),
                (case invoker_watermark_estimator self of
                   Some e \<Rightarrow> estimator_current_watermark X (user w) | None \<Rightarrow> PNone)),
               PNone)) \<and>
      cells (snd (try_split X self fraction w)) (next_free w) =
        with_value (cells w a)
          (PTuple [PTuple [value_wv (cells w a), primary],
                   provider_restriction_size X (value_wv (cells w a)) primary]) \<and>
      cells (snd (try_split X self fraction w)) (Suc (next_free w)) =
        with_value (cells w a)
          (PTuple [PTuple [value_wv (cells w a), residual],
                   provider_restriction_size X (value_wv (cells w a)) residual]) \<and>
      user (snd (try_split X self fraction w)) = u1) \<and>
   (threadsafe_restriction_tracker self = None \<or> current_windowed_value self = None \<longrightarrow>
      try_split X self fraction w = (None, w)) \<and>
   (threadsafe_restriction_tracker self = Some t \<and> current_windowed_value self = Some a \<and>
    tracker_try_split X t fraction (user w) = (None, u1) \<longrightarrow>
      try_split X self fraction w = (None, w\<lparr>user := u1\<rparr>))"
  by (auto simp: try_split_def Let_def alloc_def split: option.splits)

text \<open>In the example the split moves the estimator's watermark from 0 to 100; the
  residual carries 0.\<close>

theorem try_split_result_witness:
  "fst (try_split example_externals
          (splittable_invoker\<lparr>threadsafe_restriction_tracker := Some 1,
                              current_windowed_value := Some 0\<rparr>) (PInt 0) example_world) =
     Some (((2, PNone), PNone), ((3, PTimestamp 0), PNone)) \<and>
   value_wv (cells (snd (try_split example_externals
          (splittable_invoker\<lparr>threadsafe_restriction_tracker := Some 1,
                              current_windowed_value := Some 0\<rparr>) (PInt 0) example_world)) 3) =
     PTuple [PTuple [PInt 7, PTuple [PInt 5, PInt 10]], PInt 10] \<and>
   estimator_current_watermark example_externals
     (user (snd (try_split example_externals
          (splittable_invoker\<lparr>threadsafe_restriction_tracker := Some 1,
                              current_windowed_value := Some 0\<rparr>) (PInt 0) example_world))) =
     PTimestamp 100 \<and>
   try_split example_externals splittable_invoker (PInt 0) example_world = (None, example_world)"
  using try_split_result [of "splittable_invoker\<lparr>threadsafe_restriction_tracker := Some 1,
                              current_windowed_value := Some 0\<rparr>" 1 0 example_externals "PInt 0"
      example_world "PTuple [PInt 0, PInt 5]" "PTuple [PInt 5, PInt 10]" 100]
    try_split_result [of splittable_invoker 1 0 example_externals "PInt 0"
      example_world "PTuple [PInt 0, PInt 5]" "PTuple [PInt 5, PInt 10]" 100]
  by (simp add: example_invokers example_externals_def example_world_def example_input_def
      with_value_def)

section \<open>Guards of a splittable invocation\<close>

lemma PerWindowInvoker_init_has_windowed_inputs:
  "PerWindowInvoker_init op sig ctx sis ia ik usc bfp = Inr p \<Longrightarrow>
   has_windowed_inputs p =
     (\<not> list_all is_globally_windowed sis \<or> PParam WindowParam \<in> set (defaults (process_method sig))
      \<or> is_stateful_dofn sig)"
  unfolding PerWindowInvoker_init_def Let_def
  by (auto split: sum.splits prod.splits)

lemma per_window_has_windowed_inputs:
  "has_windowed_inputs (fst (snd (invoke_process_per_window X s a aa ks op w))) =
     has_windowed_inputs s"
  using same_static_per_window [of s X a aa ks op w] by (simp add: same_static_def)

lemma explode_has_windowed_inputs:
  "has_windowed_inputs (fst (snd (explode X s a wds aa ks op w))) = has_windowed_inputs s"
  using same_static_explode [of s X a wds aa ks op w] by (simp add: same_static_def)

lemma invoke_with_tracker_has_windowed_inputs:
  "has_windowed_inputs (fst (snd (invoke_with_tracker X self a t op aa ak w))) =
     has_windowed_inputs self"
proof (cases "restriction_provider_arg_name (process_method (signature self))")
  case None
  then show ?thesis by (simp add: invoke_with_tracker_def)
next
  case (Some n)
  obtain r w1 where re: "reset_estimator X self
                (dict_set (PStr n) (RestrictionTrackerView t) ak) w = (r, w1)"
    by (cases "reset_estimator X self (dict_set (PStr n) (RestrictionTrackerView t) ak) w")
  show ?thesis
  proof (cases r)
    case (Inl f)
    then show ?thesis using Some re by (simp add: invoke_with_tracker_def)
  next
    case (Inr ks)
    let ?s = "self\<lparr>threadsafe_restriction_tracker := Some t, current_windowed_value := Some a\<rparr>"
    obtain r2 s2 w2 where pw: "invoke_process_per_window X ?s a aa ks op w1 = (r2, s2, w2)"
      by (cases "invoke_process_per_window X ?s a aa ks op w1")
    have "has_windowed_inputs s2 = has_windowed_inputs self"
      using per_window_has_windowed_inputs [of X ?s a aa ks op w1] pw by simp
    then show ?thesis
      using Some re Inr pw by (simp add: invoke_with_tracker_def)
  qed
qed

lemma invoke_process_PerWindow_has_windowed_inputs:
  "has_windowed_inputs (fst (snd (invoke_process_PerWindow X self a rt gp aa ak w))) =
     has_windowed_inputs self"
proof (cases "context_given self")
  case False
  then show ?thesis by (simp add: invoke_process_PerWindow_def)
next
  case True
  obtain r w1 where dt: "derive_tracker X self a rt (w\<lparr>context_element := Some a\<rparr>) = (r, w1)"
    by (cases "derive_tracker X self a rt (w\<lparr>context_element := Some a\<rparr>)")
  show ?thesis
  proof (cases r)
    case (Inl f)
    then show ?thesis using True dt by (simp add: invoke_process_PerWindow_def)
  next
    case (Inr ot)
    show ?thesis
    proof (cases ot)
      case (Some t)
      then show ?thesis
        using True dt Inr invoke_with_tracker_has_windowed_inputs
        by (simp add: invoke_process_PerWindow_def)
    next
      case None
      let ?op = "case gp of None \<Rightarrow> output_processor self | Some p \<Rightarrow> Some p"
      have p: "has_windowed_inputs
                 (fst (snd (invoke_process_per_window X self a aa ak ?op w1))) =
               has_windowed_inputs self"
        by (rule per_window_has_windowed_inputs)
      show ?thesis
        using True dt Inr None p explode_has_windowed_inputs [of X self a _ aa ak ?op w1]
        by (auto simp: invoke_process_PerWindow_def split: prod.splits sum.splits)
    qed
  qed
qed

text \<open>
  Claim C8. \<open>has_windowed_inputs\<close> is fixed by the constructor (some side input not
  globally windowed, or the window parameter among the defaults of the process
  method, or a stateful DoFn) and no invocation changes it. For an invoker that
  was given its DoFnContext: when a tracker is present, supplied by the caller or
  created from the element's initial restriction, the value carries more than one
  window and the invoker has windowed inputs, \<open>invoke_process\<close> raises the
  NotImplementedError and the process method has not been called.
\<close>

theorem multi_window_splittable_rejected:
  "(PerWindowInvoker_init op sig ctx sis ia ik usc bfp = Inr p \<longrightarrow>
      has_windowed_inputs p =
        (\<not> list_all is_globally_windowed sis
         \<or> PParam WindowParam \<in> set (defaults (process_method sig))
         \<or> is_stateful_dofn sig)) \<and>
   has_windowed_inputs (fst (snd (invoke_process_PerWindow X self a rt gp aa ak w))) =
     has_windowed_inputs self \<and>
   derive_tracker X self a (Some t) w = (Inr (Some t), w) \<and>
   (context_given self \<and> has_windowed_inputs self \<and> 1 < length (windows (cells w a)) \<and>
    derive_tracker X self a rt (w\<lparr>context_element := Some a\<rparr>) = (Inr (Some t), w1) \<longrightarrow>
      fst (invoke_process_PerWindow X self a rt gp aa ak w) =
        Inl (new_fault NotImplementedError
               ''SDFs in multiply-windowed values with windowed arguments.'') \<and>
      invocations (snd (snd (invoke_process_PerWindow X self a rt gp aa ak w))) =
        invocations w)"
proof (intro conjI impI)
  assume "PerWindowInvoker_init op sig ctx sis ia ik usc bfp = Inr p"
  then show "has_windowed_inputs p =
        (\<not> list_all is_globally_windowed sis
         \<or> PParam WindowParam \<in> set (defaults (process_method sig))
         \<or> is_stateful_dofn sig)"
    by (rule PerWindowInvoker_init_has_windowed_inputs)
next
  show "has_windowed_inputs (fst (snd (invoke_process_PerWindow X self a rt gp aa ak w))) =
     has_windowed_inputs self"
    by (rule invoke_process_PerWindow_has_windowed_inputs)
next
  show "derive_tracker X self a (Some t) w = (Inr (Some t), w)"
    by (rule derive_tracker_supplied)
next
  assume h: "context_given self \<and> has_windowed_inputs self \<and> 1 < length (windows (cells w a)) \<and>
    derive_tracker X self a rt (w\<lparr>context_element := Some a\<rparr>) = (Inr (Some t), w1)"
  have c: "cells w1 = cells w" and i: "invocations w1 = invocations w"
    using derive_tracker_frame [of X self a rt "w\<lparr>context_element := Some a\<rparr>"] h by simp_all
  show "fst (invoke_process_PerWindow X self a rt gp aa ak w) =
        Inl (new_fault NotImplementedError
               ''SDFs in multiply-windowed values with windowed arguments.'')"
    using h c by (simp add: invoke_process_PerWindow_def invoke_with_tracker_def)
  show "invocations (snd (snd (invoke_process_PerWindow X self a rt gp aa ak w))) = invocations w"
    using h c i by (simp add: invoke_process_PerWindow_def invoke_with_tracker_def)
qed

theorem multi_window_splittable_rejected_witness:
  "has_windowed_inputs splittable_window_invoker \<and>
   length (windows (cells example_world 0)) = 2 \<and>
   fst (invoke_process_PerWindow example_externals splittable_window_invoker 0 (Some 1) None [] []
          example_world) =
     Inl (new_fault NotImplementedError
            ''SDFs in multiply-windowed values with windowed arguments.'') \<and>
   invocations (snd (snd (invoke_process_PerWindow example_externals splittable_window_invoker 0
      (Some 1) None [] [] example_world))) = []"
  using multi_window_splittable_rejected [of "Some example_processor"
      "DoFnSignature_fields splittable_window_dofn" True "[]" "[]" "[]" False PBundleFinalizer
      splittable_window_invoker example_externals splittable_window_invoker 0 "Some 1" None
      "[]" "[]" example_world 1 "example_world\<lparr>context_element := Some 0\<rparr>"]
  by (simp add: example_invokers derive_tracker_def example_world_def example_input_def)

text \<open>
  Claim C10, as the code has it. A call that supplies a tracker for a process
  method without a restriction tracker parameter raises before the process method
  is called: the NotImplementedError of the multi-window guard when the value has
  more than one window and the invoker has windowed inputs, the ValueError
  otherwise. And for an invoker whose handle is clear and whose watermark
  estimator, if any, resets without raising, the handle is clear again after
  \<open>invoke_process\<close>, whether it returned or raised, so that \<open>try_split\<close> and
  \<open>current_element_progress\<close> then return nothing.
\<close>

theorem tracker_guards_and_handle_cleared:
  "(context_given self \<and>
    restriction_provider_arg_name (process_method (signature self)) = None \<longrightarrow>
      (\<exists>f. fst (invoke_process_PerWindow X self a (Some t) gp aa ak w) = Inl f \<and>
           exn_kind f =
             (if 1 < length (windows (cells w a)) \<and> has_windowed_inputs self
              then NotImplementedError else ValueError)) \<and>
      invocations (snd (snd (invoke_process_PerWindow X self a (Some t) gp aa ak w))) =
        invocations w) \<and>
   (threadsafe_restriction_tracker self = None \<and>
    (invoker_watermark_estimator self = None \<or> (\<forall>u. \<exists>u'. estimator_reset X u = (Inr (), u')))
    \<longrightarrow>
      threadsafe_restriction_tracker
        (fst (snd (invoke_process_PerWindow X self a rt gp aa ak w))) = None \<and>
      try_split X (fst (snd (invoke_process_PerWindow X self a rt gp aa ak w))) fraction
        (snd (snd (invoke_process_PerWindow X self a rt gp aa ak w))) =
        (None, snd (snd (invoke_process_PerWindow X self a rt gp aa ak w))) \<and>
      current_element_progress X (fst (snd (invoke_process_PerWindow X self a rt gp aa ak w)))
        (snd (snd (invoke_process_PerWindow X self a rt gp aa ak w))) = None)"
proof (intro conjI impI)
  assume h: "context_given self \<and>
    restriction_provider_arg_name (process_method (signature self)) = None"
  show "\<exists>f. fst (invoke_process_PerWindow X self a (Some t) gp aa ak w) = Inl f \<and>
           exn_kind f =
             (if 1 < length (windows (cells w a)) \<and> has_windowed_inputs self
              then NotImplementedError else ValueError)"
    using h
    by (simp add: invoke_process_PerWindow_def derive_tracker_def invoke_with_tracker_def
        new_fault_def)
  show "invocations (snd (snd (invoke_process_PerWindow X self a (Some t) gp aa ak w))) =
        invocations w"
    using h
    by (simp add: invoke_process_PerWindow_def derive_tracker_def invoke_with_tracker_def)
next
  assume h: "threadsafe_restriction_tracker self = None \<and>
    (invoker_watermark_estimator self = None \<or> (\<forall>u. \<exists>u'. estimator_reset X u = (Inr (), u')))"
  then have a1: "threadsafe_restriction_tracker self = None"
    and a2: "invoker_watermark_estimator self = None \<or> (\<forall>u. \<exists>u'. estimator_reset X u = (Inr (), u'))"
    by simp_all
  show c: "threadsafe_restriction_tracker
        (fst (snd (invoke_process_PerWindow X self a rt gp aa ak w))) = None"
    by (rule invoke_process_PerWindow_handle [OF a1 a2])
  show "try_split X (fst (snd (invoke_process_PerWindow X self a rt gp aa ak w))) fraction
        (snd (snd (invoke_process_PerWindow X self a rt gp aa ak w))) =
        (None, snd (snd (invoke_process_PerWindow X self a rt gp aa ak w)))"
    using c by (simp add: try_split_def)
  show "current_element_progress X (fst (snd (invoke_process_PerWindow X self a rt gp aa ak w)))
        (snd (snd (invoke_process_PerWindow X self a rt gp aa ak w))) = None"
    using c by (simp add: current_element_progress_def)
qed

theorem tracker_guards_and_handle_cleared_witness:
  "(\<exists>f. fst (invoke_process_PerWindow example_externals window_invoker 1 (Some 1) None [] []
             example_world) = Inl f \<and> exn_kind f = ValueError) \<and>
   threadsafe_restriction_tracker
     (fst (snd (invoke_process_PerWindow example_externals splittable_invoker 0 None None [] []
        example_world))) = None \<and>
   fst (try_split example_externals
     (fst (snd (invoke_process_PerWindow example_externals splittable_invoker 0 None None [] []
        example_world))) (PInt 0)
     (snd (snd (invoke_process_PerWindow example_externals splittable_invoker 0 None None [] []
        example_world)))) = None"
  using tracker_guards_and_handle_cleared [of window_invoker example_externals 1 1 None "[]" "[]"
      example_world None "PInt 0"]
    tracker_guards_and_handle_cleared [of splittable_invoker example_externals 0 1 None "[]" "[]"
      example_world None "PInt 0"]
  by (simp add: example_invokers example_signature_fields example_externals_def
      example_world_def example_output_def)

text \<open>
  Claim C10 as stated fails: \<open>window_invoker\<close> has no restriction tracker parameter,
  a tracker is supplied for the two-window value at address 0, and the fault raised
  is the NotImplementedError of the multi-window guard, not a ValueError.
\<close>

theorem tracker_without_param_not_implemented:
  "restriction_provider_arg_name (process_method (signature window_invoker)) = None \<and>
   fst (invoke_process_PerWindow example_externals window_invoker 0 (Some 1) None [] []
          example_world) =
     Inl (new_fault NotImplementedError
            ''SDFs in multiply-windowed values with windowed arguments.'')"
  by (simp add: example_invokers example_signature_fields invoke_process_PerWindow_def
      derive_tracker_def invoke_with_tracker_def example_world_def example_input_def)

text \<open>The estimator is reset before the \<^verbatim>\<open>try\<close> block: when the reset raises, the
  handle set just before stays set.\<close>

lemma handle_stays_set_when_reset_raises:
  "threadsafe_restriction_tracker
     (fst (snd (invoke_process_PerWindow
        (example_externals\<lparr>estimator_reset := \<lambda>u. (Inl (new_fault RuntimeError ''reset''), u)\<rparr>)
        splittable_invoker 0 (Some 1) None [] [] example_world))) = Some 1"
  by (simp add: example_invokers example_signature_fields invoke_process_PerWindow_def
      derive_tracker_def invoke_with_tracker_def reset_estimator_def example_externals_def
      example_world_def example_input_def)

section \<open>Exploding a multi-window value\<close>

lemma to_windowed_value_invocations:
  "invocations (snd (to_windowed_value op inp r w)) = invocations w"
  by (cases r) (auto simp: multiply_windows_def alloc_def split: option.splits)

lemma process_output_invocations:
  "invocations (snd (process_output op inp r w)) = invocations w"
proof (cases "untag r")
  case (Inl f)
  then show ?thesis by (simp add: process_output_def)
next
  case (Inr tr)
  obtain tag r' where tr: "tr = (tag, r')" by (cases tr)
  obtain x w1 where tw: "to_windowed_value op inp r' w = (x, w1)"
    by (cases "to_windowed_value op inp r' w")
  have "invocations w1 = invocations w"
    using to_windowed_value_invocations [of op inp r' w] tw by simp
  then show ?thesis
    using Inr tr tw
    by (cases x) (auto simp: process_output_def receive_def split: option.splits)
qed

lemma dispatch_all_invocations:
  "invocations (snd (dispatch_all op inp rs w)) = invocations w"
proof (induction rs arbitrary: w)
  case Nil
  then show ?case by simp
next
  case (Cons r rs)
  obtain x w1 where po: "process_output op inp r w = (x, w1)"
    by (cases "process_output op inp r w")
  have "invocations w1 = invocations w"
    using process_output_invocations [of op inp r w] po by simp
  then show ?case using po Cons.IH [of w1] by (cases x) simp_all
qed

lemma process_outputs_invocations:
  "invocations (snd (process_outputs op inp res w)) = invocations w"
  using dispatch_all_invocations [of op inp "results_items res" w]
  by (auto simp: process_outputs_def add_input_def split: prod.splits sum.splits option.splits)

lemma next_free_add_input: "next_free (add_input op n w) = next_free w"
  by (simp add: add_input_def)

text \<open>Output processing for the input at \<open>b\<close> keeps every existing object up to its
  windows.\<close>

lemma process_outputs_keeps:
  assumes "b < next_free w"
  shows "next_free w \<le> next_free (snd (process_outputs op (Some b) res w)) \<and>
         (\<forall>c < next_free w.
            same_but_windows (cells (snd (process_outputs op (Some b) res w)) c) (cells w c))"
proof (cases "res = ResultsNone")
  case True
  then show ?thesis
    by (simp add: process_outputs_def cells_add_input next_free_add_input same_but_windows_def)
next
  case False
  obtain x w1 where d: "dispatch_all op (Some b) (results_items res) w = (x, w1)"
    by (cases "dispatch_all op (Some b) (results_items res) w")
  have k: "next_free w \<le> next_free w1 \<and> (\<forall>c < next_free w. same_but_windows (cells w1 c) (cells w c))"
    using frame_dispatch_all [OF assms, of op "results_items res"] d by simp
  show ?thesis
    using False d k
    by (cases x; cases "results_fault res")
       (simp_all add: process_outputs_def cells_add_input next_free_add_input)
qed

text \<open>The loop over the placeholders writes each position once.\<close>

lemma fill_placeholders_length:
  "fill_placeholders self wv key window ps as = (fo, as1) \<Longrightarrow> length as1 = length as"
proof (induction ps arbitrary: as)
  case Nil
  then show ?case by simp
next
  case (Cons ip ps)
  then show ?case
    by (cases "placeholder_value self wv key window (snd ip)")
       (auto split: option.splits if_splits)
qed

lemma fill_placeholders_other:
  "fill_placeholders self wv key window ps as = (fo, as1) \<Longrightarrow> k \<notin> fst ` set ps \<Longrightarrow>
   as1 ! k = as ! k"
proof (induction ps arbitrary: as)
  case Nil
  then show ?case by simp
next
  case (Cons ip ps)
  then show ?case
    by (cases "placeholder_value self wv key window (snd ip)")
       (auto split: option.splits if_splits)
qed

lemma fill_placeholders_written:
  assumes "fill_placeholders self wv key window ps as = (None, as1)"
    and "distinct (map fst ps)" and "(k, p) \<in> set ps"
    and "placeholder_value self wv key window p = Inr (Some v)"
  shows "as1 ! k = v"
  using assms
proof (induction ps arbitrary: as)
  case Nil
  then show ?case by simp
next
  case (Cons ip ps)
  show ?case
  proof (cases "ip = (k, p)")
    case True
    from Cons.prems(1) True Cons.prems(4)
    have lt: "k < length as" and rest: "fill_placeholders self wv key window ps (as[k := v]) = (None, as1)"
      by (auto split: if_splits)
    have "k \<notin> fst ` set ps" using Cons.prems(2) True by force
    from fill_placeholders_other [OF rest this] lt show ?thesis by simp
  next
    case False
    then have mem: "(k, p) \<in> set ps" using Cons.prems(3) by simp
    have d: "distinct (map fst ps)" using Cons.prems(2) by simp
    from Cons.prems(1) obtain as' where "fill_placeholders self wv key window ps as' = (None, as1)"
      by (cases "placeholder_value self wv key window (snd ip)")
         (auto split: option.splits if_splits)
    from Cons.IH [OF this d mem Cons.prems(4)] show ?thesis .
  qed
qed

lemma placeholder_value_simple:
  "placeholder_value self wv key (Some wd) WindowParam = Inr (Some (PWindow wd))"
  "placeholder_value self wv key window ElementParam = Inr (Some (value_wv wv))"
  "placeholder_value self wv key window TimestampParam = Inr (Some (PTimestamp (timestamp wv)))"
  by (simp_all add: placeholder_value_def)

text \<open>One successful per-window invocation of an invoker with windowed inputs that
  is not splittable.\<close>

lemma per_window_windowed:
  assumes hwi: "has_windowed_inputs self" and ns: "\<not> is_splittable self"
    and win: "windows (cells w b) = [wd]" and b: "b < next_free w"
    and ok: "invoke_process_per_window X self b aa ak op w = (Inr r, self', w')"
    and d: "distinct (map fst (placeholders self))"
  shows "self' = self \<and> next_free w \<le> next_free w' \<and>
         (\<forall>c < next_free w. same_but_windows (cells w' c) (cells w c)) \<and>
         (\<exists>as ks. invocations w' =
                    invocations w @ [\<lparr>in_scope = cells w b, call_args = as, call_kwargs = ks\<rparr>] \<and>
            (\<forall>k. (k, WindowParam) \<in> set (placeholders self) \<longrightarrow> as ! k = PWindow wd) \<and>
            (\<forall>k. (k, ElementParam) \<in> set (placeholders self) \<longrightarrow>
                 as ! k = value_wv (cells w b)) \<and>
            (\<forall>k. (k, TimestampParam) \<in> set (placeholders self) \<longrightarrow>
                 as ! k = PTimestamp (timestamp (cells w b))))"
proof -
  obtain as0 ks0 where pa: "prepare_args X self (cells w b) aa = (Inr (as0, ks0, Some wd, False), self)"
    using ok hwi win
    by (auto simp: invoke_process_per_window_def prepare_args_def split: sum.splits prod.splits)
  obtain key where ek: "extract_key self (cells w b) = Inr key"
    using ok pa by (auto simp: invoke_process_per_window_def split: sum.splits)
  obtain as1 where fp: "fill_placeholders self (cells w b) key (Some wd) (placeholders self) as0 = (None, as1)"
    using ok pa ek
    by (auto simp: invoke_process_per_window_def split: sum.splits prod.splits option.splits)
  let ?ks = "merge_kwargs ak ks0"
  have ce: "call_and_emit X self b as1 ?ks op w = (Inr r, self', w')"
    using ok pa ek fp by (simp add: invoke_process_per_window_def store_plan_def)
  obtain opr where op: "op = Some opr"
    using ce by (cases op) (simp_all add: call_and_emit_def)
  obtain res u1 where dp: "dofn_process X as1 ?ks (user w) = (Inr res, u1)"
    using ce op
    by (auto simp: call_and_emit_def split: if_splits prod.splits sum.splits)
  let ?w1 = "log_invocation b as1 ?ks u1 w"
  obtain w2 where po: "process_outputs opr (Some b) res ?w1 = (Inr (), w2)"
    using ce op dp
    by (auto simp: call_and_emit_def split: if_splits prod.splits sum.splits)
  have fin: "self' = self \<and> w' = w2"
    using ce op dp po ns
    by (auto simp: call_and_emit_def after_process_def split: if_splits)
  have b1: "b < next_free ?w1" using b by (simp add: log_invocation_def)
  have keep: "next_free ?w1 \<le> next_free w2 \<and>
              (\<forall>c < next_free ?w1. same_but_windows (cells w2 c) (cells ?w1 c))"
    using process_outputs_keeps [OF b1, of opr res] po by simp
  have inv: "invocations w2 = invocations ?w1"
    using process_outputs_invocations [of opr "Some b" res ?w1] po by simp
  have wr: "\<And>k p v. (k, p) \<in> set (placeholders self) \<Longrightarrow>
              placeholder_value self (cells w b) key (Some wd) p = Inr (Some v) \<Longrightarrow> as1 ! k = v"
    using fill_placeholders_written [OF fp d] by blast
  show ?thesis
    using fin keep inv wr placeholder_value_simple
    by (auto simp: log_invocation_def)
qed

section \<open>The argument plan built by the constructor\<close>

lemma zip_last_n_optional:
  "zip (last_n (length (map snd opt)) (req @ map fst opt)) (map snd opt) = opt"
  by (cases "opt = []") (simp_all add: last_n_def zip_map_fst_snd)

lemma plan_step_grows:
  assumes "plan_step ik (awp, remaining, kr) ad = Inr (awp', remaining', kr')"
  shows "set awp \<subseteq> set awp' \<and> (snd ad = PParam WindowParam \<longrightarrow> ArgPlaceholder WindowParam \<in> set awp')"
  using assms
  by (auto simp: plan_step_def append_placeholder_def append_next_def
      split: prod.splits if_splits option.splits pyval.splits param.splits list.splits)

lemma plan_loop_grows:
  assumes "plan_loop ik ads (awp, remaining, kr) = Inr (awp', remaining', kr')"
  shows "set awp \<subseteq> set awp' \<and>
         ((\<exists>n. (n, PParam WindowParam) \<in> set ads) \<longrightarrow> ArgPlaceholder WindowParam \<in> set awp')"
  using assms
proof (induction ads arbitrary: awp remaining kr)
  case Nil
  then show ?case by simp
next
  case (Cons ad ads)
  from Cons.prems obtain awp1 rem1 kr1 where
    st: "plan_step ik (awp, remaining, kr) ad = Inr (awp1, rem1, kr1)"
    and lp: "plan_loop ik ads (awp1, rem1, kr1) = Inr (awp', remaining', kr')"
    by (auto split: sum.splits)
  from plan_step_grows [OF st] Cons.IH [OF lp] show ?case
    by (cases ad) auto
qed

lemma placeholder_of_index: "placeholder_of ix = Some (k, p) \<Longrightarrow> ix = (k, ArgPlaceholder p)"
  by (cases ix; cases "snd ix") auto

lemma map_fst_placeholders:
  "map fst (List.map_filter placeholder_of ixs) =
   map fst (filter (\<lambda>ix. placeholder_of ix \<noteq> None) ixs)"
proof (induction ixs)
  case Nil
  then show ?case by (simp add: List.map_filter_simps)
next
  case (Cons ix ixs)
  then show ?case
    by (cases "placeholder_of ix")
       (auto simp: List.map_filter_simps dest: placeholder_of_index)
qed

lemma distinct_placeholders:
  "distinct (map fst (List.map_filter placeholder_of (enumerate n xs)))"
  unfolding map_fst_placeholders
  by (rule distinct_map_filter) simp

lemma placeholder_member:
  assumes "ArgPlaceholder p \<in> set xs"
  shows "\<exists>k. (k, p) \<in> set (List.map_filter placeholder_of (enumerate 0 xs))"
proof -
  from assms obtain k where k: "k < length xs" "xs ! k = ArgPlaceholder p"
    by (auto simp: in_set_conv_nth)
  then have "(k, ArgPlaceholder p) \<in> set (enumerate 0 xs)"
    by (auto simp: in_set_enumerate_eq)
  then have "(k, p) \<in> set (List.map_filter placeholder_of (enumerate 0 xs))"
    by (force simp: List.map_filter_def)
  then show ?thesis ..
qed

lemma PerWindowInvoker_init_plan:
  assumes "PerWindowInvoker_init op (DoFnSignature_fields fn) ctx sis ia ik usc bfp = Inr self"
  shows "distinct (map fst (placeholders self)) \<and>
         context_given self = ctx \<and>
         is_splittable self = is_splittable_dofn (DoFnSignature_fields fn) \<and>
         ((\<exists>n. (n, PParam WindowParam) \<in> set (optional (process_decl fn))) \<longrightarrow>
            has_windowed_inputs self \<and> (\<exists>k. (k, WindowParam) \<in> set (placeholders self)))"
proof -
  let ?sig = "DoFnSignature_fields fn"
  have pm: "process_method ?sig = MethodWrapper_init (process_decl fn)"
    by (simp add: DoFnSignature_fields_def)
  have ad: "args (process_method ?sig) = required (process_decl fn) @ map fst (optional (process_decl fn))"
    "defaults (process_method ?sig) = map snd (optional (process_decl fn))"
    by (simp_all add: pm MethodWrapper_init_args_defaults)
  have z: "zip (last_n (length (defaults (process_method ?sig))) (args (process_method ?sig)))
             (defaults (process_method ?sig)) = optional (process_decl fn)"
    unfolding ad by (rule zip_last_n_optional)
  from assms obtain start remaining0 awp remaining kr where
    lp: "plan_loop ik (optional (process_decl fn)) (start, remaining0, False) = Inr (awp, remaining, kr)"
    and ph: "placeholders self = List.map_filter placeholder_of (enumerate 0 (awp @ remaining))"
    and cg: "context_given self = ctx"
    and sp: "is_splittable self = is_splittable_dofn ?sig"
    and hw: "has_windowed_inputs self =
              (\<not> list_all is_globally_windowed sis
               \<or> PParam WindowParam \<in> set (defaults (process_method ?sig))
               \<or> is_stateful_dofn ?sig)"
    unfolding PerWindowInvoker_init_def Let_def z
    by (auto split: sum.splits prod.splits)
  have d: "distinct (map fst (placeholders self))"
    unfolding ph by (rule distinct_placeholders)
  have w: "(\<exists>n. (n, PParam WindowParam) \<in> set (optional (process_decl fn))) \<longrightarrow>
            has_windowed_inputs self \<and> (\<exists>k. (k, WindowParam) \<in> set (placeholders self))"
  proof
    assume ex: "\<exists>n. (n, PParam WindowParam) \<in> set (optional (process_decl fn))"
    then have "PParam WindowParam \<in> set (defaults (process_method ?sig))"
      unfolding ad by force
    then have h: "has_windowed_inputs self" using hw by simp
    have "ArgPlaceholder WindowParam \<in> set awp"
      using plan_loop_grows [OF lp] ex by simp
    then have "ArgPlaceholder WindowParam \<in> set (awp @ remaining)" by simp
    from placeholder_member [OF this] h
    show "has_windowed_inputs self \<and> (\<exists>k. (k, WindowParam) \<in> set (placeholders self))"
      unfolding ph by simp
  qed
  show ?thesis using d cg sp w by simp
qed

section \<open>Two windows, two invocations\<close>

lemma explode_two:
  assumes hwi: "has_windowed_inputs self" and ns: "\<not> is_splittable self"
    and d: "distinct (map fst (placeholders self))"
    and a: "a < next_free w"
    and ok: "explode X self a [w1, w2] aa ak op w = (Inr r, self', w')"
  shows "\<exists>i1 i2.
           invocations w' = invocations w @ [i1, i2] \<and>
           value_wv (in_scope i1) = value_wv (cells w a) \<and>
           timestamp (in_scope i1) = timestamp (cells w a) \<and>
           windows (in_scope i1) = [w1] \<and>
           value_wv (in_scope i2) = value_wv (cells w a) \<and>
           timestamp (in_scope i2) = timestamp (cells w a) \<and>
           windows (in_scope i2) = [w2] \<and>
           (\<forall>k. (k, WindowParam) \<in> set (placeholders self) \<longrightarrow>
                call_args i1 ! k = PWindow w1 \<and> call_args i2 ! k = PWindow w2) \<and>
           (\<forall>k. (k, ElementParam) \<in> set (placeholders self) \<longrightarrow>
                call_args i1 ! k = value_wv (cells w a) \<and>
                call_args i2 ! k = value_wv (cells w a)) \<and>
           (\<forall>k. (k, TimestampParam) \<in> set (placeholders self) \<longrightarrow>
                call_args i1 ! k = PTimestamp (timestamp (cells w a)) \<and>
                call_args i2 ! k = PTimestamp (timestamp (cells w a)))"
proof -
  let ?v = "value_wv (cells w a)" and ?t = "timestamp (cells w a)"
  let ?b1 = "next_free w"
  let ?wA = "w\<lparr>cells := (cells w)(?b1 := WindowedValue ?v ?t [w1]),
                window_list := (window_list w)(?b1 := None), next_free := Suc ?b1\<rparr>"
  have alA: "alloc (WindowedValue ?v ?t [w1]) None w = (?b1, ?wA)" by (simp add: alloc_def)
  obtain x1 s1 wB where pw1: "invoke_process_per_window X self ?b1 aa ak op ?wA = (x1, s1, wB)"
    by (cases "invoke_process_per_window X self ?b1 aa ak op ?wA")
  obtain r1 where x1: "x1 = Inr r1"
    using ok alA pw1 by (cases x1) simp_all
  have winA: "windows (cells ?wA ?b1) = [w1]" by (simp add: WindowedValue_def)
  have bA: "?b1 < next_free ?wA" by simp
  from per_window_windowed [OF hwi ns winA bA pw1 [unfolded x1] d]
  obtain as1 ks1 where
    s1: "s1 = self" and nB: "next_free ?wA \<le> next_free wB"
    and kB: "\<forall>c < next_free ?wA. same_but_windows (cells wB c) (cells ?wA c)"
    and iB: "invocations wB = invocations ?wA @
               [\<lparr>in_scope = cells ?wA ?b1, call_args = as1, call_kwargs = ks1\<rparr>]"
    and a1: "\<forall>k. (k, WindowParam) \<in> set (placeholders self) \<longrightarrow> as1 ! k = PWindow w1"
      "\<forall>k. (k, ElementParam) \<in> set (placeholders self) \<longrightarrow> as1 ! k = value_wv (cells ?wA ?b1)"
      "\<forall>k. (k, TimestampParam) \<in> set (placeholders self) \<longrightarrow>
          as1 ! k = PTimestamp (timestamp (cells ?wA ?b1))"
    by blast
  have aB: "same_but_windows (cells wB a) (cells w a)"
    using kB a by (auto simp: same_but_windows_def)
  then have vB: "value_wv (cells wB a) = ?v" and tB: "timestamp (cells wB a) = ?t"
    by (simp_all add: same_but_windows_def)
  let ?b2 = "next_free wB"
  let ?wC = "wB\<lparr>cells := (cells wB)(?b2 := WindowedValue ?v ?t [w2]),
                 window_list := (window_list wB)(?b2 := None), next_free := Suc ?b2\<rparr>"
  have alC: "alloc (WindowedValue (value_wv (cells wB a)) (timestamp (cells wB a)) [w2]) None wB = (?b2, ?wC)"
    by (simp add: alloc_def vB tB)
  obtain x2 s2 wD where pw2: "invoke_process_per_window X self ?b2 aa ak op ?wC = (x2, s2, wD)"
    by (cases "invoke_process_per_window X self ?b2 aa ak op ?wC")
  have ex: "explode X self a [w1, w2] aa ak op w =
              (case x2 of Inl f \<Rightarrow> (Inl f, s2, wD) | Inr u \<Rightarrow> (Inr None, s2, wD))"
    using alA pw1 x1 s1 alC pw2 by (simp split: sum.splits)
  obtain r2 where x2: "x2 = Inr r2" and w': "w' = wD"
    using ok ex by (cases x2) simp_all
  have winC: "windows (cells ?wC ?b2) = [w2]" by (simp add: WindowedValue_def)
  have bC: "?b2 < next_free ?wC" by simp
  from per_window_windowed [OF hwi ns winC bC pw2 [unfolded x2] d]
  obtain as2 ks2 where
    iD: "invocations wD = invocations ?wC @
               [\<lparr>in_scope = cells ?wC ?b2, call_args = as2, call_kwargs = ks2\<rparr>]"
    and a2: "\<forall>k. (k, WindowParam) \<in> set (placeholders self) \<longrightarrow> as2 ! k = PWindow w2"
      "\<forall>k. (k, ElementParam) \<in> set (placeholders self) \<longrightarrow> as2 ! k = value_wv (cells ?wC ?b2)"
      "\<forall>k. (k, TimestampParam) \<in> set (placeholders self) \<longrightarrow>
          as2 ! k = PTimestamp (timestamp (cells ?wC ?b2))"
    by blast
  let ?i1 = "\<lparr>in_scope = cells ?wA ?b1, call_args = as1, call_kwargs = ks1\<rparr>"
  let ?i2 = "\<lparr>in_scope = cells ?wC ?b2, call_args = as2, call_kwargs = ks2\<rparr>"
  have inv: "invocations w' = invocations w @ [?i1, ?i2]"
    using iB iD w' by simp
  have c1: "cells ?wA ?b1 = WindowedValue ?v ?t [w1]" and c2: "cells ?wC ?b2 = WindowedValue ?v ?t [w2]"
    by simp_all
  show ?thesis
    apply (rule exI [of _ ?i1], rule exI [of _ ?i2])
    using inv a1 a2 unfolding c1 c2
    by (simp add: WindowedValue_def)
qed

text \<open>
  Claim C2, as the code has it. Take a DoFn that is not splittable and whose process
  method requests the window parameter, the PerWindowInvoker constructed for it,
  and a value that exists and carries the windows \<open>w1, w2\<close>. If
  \<open>invoke_process\<close>, called without a tracker, returns, then the process method
  was called exactly twice, first for \<open>w1\<close> and then for \<open>w2\<close>: each call has a
  single-window value in scope that carries the original value and timestamp, the
  plan has a position for the window, and every window position holds the window
  of the call, every element position the original value, every timestamp position
  the original timestamp.
\<close>

theorem two_windows_two_invocations:
  assumes "PerWindowInvoker_init op (DoFnSignature_fields fn) True sis ia ik usc bfp = Inr self"
    and "(n, PParam WindowParam) \<in> set (optional (process_decl fn))"
    and "\<not> is_splittable_dofn (DoFnSignature_fields fn)"
    and "windows (cells w a) = [w1, w2]" and "a < next_free w"
    and "fst (invoke_process_PerWindow X self a None gp aa ak w) = Inr r"
  shows "\<exists>i1 i2.
           invocations (snd (snd (invoke_process_PerWindow X self a None gp aa ak w))) =
             invocations w @ [i1, i2] \<and>
           value_wv (in_scope i1) = value_wv (cells w a) \<and>
           timestamp (in_scope i1) = timestamp (cells w a) \<and>
           windows (in_scope i1) = [w1] \<and>
           value_wv (in_scope i2) = value_wv (cells w a) \<and>
           timestamp (in_scope i2) = timestamp (cells w a) \<and>
           windows (in_scope i2) = [w2] \<and>
           (\<exists>k. (k, WindowParam) \<in> set (placeholders self)) \<and>
           (\<forall>k. (k, WindowParam) \<in> set (placeholders self) \<longrightarrow>
                call_args i1 ! k = PWindow w1 \<and> call_args i2 ! k = PWindow w2) \<and>
           (\<forall>k. (k, ElementParam) \<in> set (placeholders self) \<longrightarrow>
                call_args i1 ! k = value_wv (cells w a) \<and>
                call_args i2 ! k = value_wv (cells w a)) \<and>
           (\<forall>k. (k, TimestampParam) \<in> set (placeholders self) \<longrightarrow>
                call_args i1 ! k = PTimestamp (timestamp (cells w a)) \<and>
                call_args i2 ! k = PTimestamp (timestamp (cells w a)))"
proof -
  from PerWindowInvoker_init_plan [OF assms(1)] assms(2,3)
  have d: "distinct (map fst (placeholders self))" and cg: "context_given self"
    and ns: "\<not> is_splittable self" and hwi: "has_windowed_inputs self"
    and ex: "\<exists>k. (k, WindowParam) \<in> set (placeholders self)"
    by auto
  let ?w0 = "w\<lparr>context_element := Some a\<rparr>"
  let ?op = "case gp of None \<Rightarrow> output_processor self | Some p \<Rightarrow> Some p"
  have dt: "derive_tracker X self a None ?w0 = (Inr None, ?w0)"
    using ns by (simp add: derive_tracker_def)
  have ip: "invoke_process_PerWindow X self a None gp aa ak w =
              explode X self a [w1, w2] aa ak ?op ?w0"
    using cg dt hwi assms(4) by (simp add: invoke_process_PerWindow_def)
  obtain x s' w' where e: "explode X self a [w1, w2] aa ak ?op ?w0 = (x, s', w')"
    by (cases "explode X self a [w1, w2] aa ak ?op ?w0")
  have e': "explode X self a [w1, w2] aa ak ?op ?w0 = (Inr r, s', w')"
    using assms(6) ip e by simp
  have a0: "a < next_free ?w0" using assms(5) by simp
  from explode_two [OF hwi ns d a0 e'] ex show ?thesis
    unfolding ip e' by simp
qed

text \<open>The definitions that a run of \<open>invoke_process\<close> on a concrete input unfolds.\<close>

lemmas run_defs =
  invoke_process_PerWindow_def derive_tracker_def invoke_initial_restriction_def
  invoke_create_tracker_def invoke_with_tracker_def reset_estimator_def alloc_def
  invoke_process_per_window_def prepare_args_def extract_key_def placeholder_value_def
  store_plan_def merge_kwargs_def call_and_emit_def log_invocation_def after_process_def
  process_outputs_def process_output_def receive_def add_input_def with_value_def
  WindowedValue_def

lemma example_signature_provider:
  "initial_restriction_method (DoFnSignature_fields splittable_dofn) = Some ''provider''"
  "create_tracker_method (DoFnSignature_fields splittable_dofn) = Some ''provider''"
  "initial_restriction_method (DoFnSignature_fields splittable_window_dofn) = Some ''provider''"
  "create_tracker_method (DoFnSignature_fields splittable_window_dofn) = Some ''provider''"
  using example_signature_fields(2,3) by (simp_all add: DoFnSignature_fields_def)

lemma window_invoker_run:
  "fst (invoke_process_PerWindow example_externals window_invoker 0 None None [] []
          example_world) = Inr None"
  by (simp add: run_defs example_invokers example_signature_fields example_externals_def
      example_world_def example_input_def example_processor_def)

theorem two_windows_two_invocations_witness:
  "\<exists>i1 i2.
     invocations (snd (snd (invoke_process_PerWindow example_externals window_invoker 0 None None
        [] [] example_world))) = [i1, i2] \<and>
     value_wv (in_scope i1) = PInt 7 \<and> timestamp (in_scope i1) = 5 \<and>
     windows (in_scope i1) = [IntervalWindow 0 10] \<and>
     value_wv (in_scope i2) = PInt 7 \<and> timestamp (in_scope i2) = 5 \<and>
     windows (in_scope i2) = [IntervalWindow 10 20] \<and>
     call_args i1 ! 1 = PWindow (IntervalWindow 0 10) \<and>
     call_args i2 ! 1 = PWindow (IntervalWindow 10 20) \<and>
     call_args i1 ! 0 = PInt 7 \<and> call_args i2 ! 0 = PInt 7"
proof -
  have init: "PerWindowInvoker_init (Some example_processor) (DoFnSignature_fields window_dofn)
                True [] [] [] False PBundleFinalizer = Inr window_invoker"
    by (simp add: window_invoker_init example_invokers)
  have wp: "(''w'', PParam WindowParam) \<in> set (optional (process_decl window_dofn))"
    by (simp add: window_dofn_def)
  have ns: "\<not> is_splittable_dofn (DoFnSignature_fields window_dofn)"
    by (simp add: is_splittable_dofn_def get_restriction_provider_def example_signature_fields)
  have win: "windows (cells example_world 0) = [IntervalWindow 0 10, IntervalWindow 10 20]"
    and a: "0 < next_free example_world"
    and v: "value_wv (cells example_world 0) = PInt 7" "timestamp (cells example_world 0) = 5"
    and i0: "invocations example_world = []"
    by (simp_all add: example_world_def example_input_def)
  have ph: "(1, WindowParam) \<in> set (placeholders window_invoker)"
    "(0, ElementParam) \<in> set (placeholders window_invoker)"
    by (simp_all add: example_invokers)
  from two_windows_two_invocations [OF init wp ns win a window_invoker_run] ph
  show ?thesis unfolding v i0 by auto
qed

text \<open>
  Claim C2 as stated fails: the process method of \<open>splittable_window_dofn\<close> requests
  the window parameter, the value at address 0 carries two windows, and
  \<open>invoke_process\<close> raises without calling the process method at all.
\<close>

theorem splittable_window_dofn_never_called:
  "PParam WindowParam \<in> set (defaults (process_method (signature splittable_window_invoker))) \<and>
   windows (cells example_world 0) = [IntervalWindow 0 10, IntervalWindow 10 20] \<and>
   fst (invoke_process_PerWindow example_externals splittable_window_invoker 0 None None [] []
          example_world) =
     Inl (new_fault NotImplementedError
            ''SDFs in multiply-windowed values with windowed arguments.'') \<and>
   invocations (snd (snd (invoke_process_PerWindow example_externals splittable_window_invoker 0
      None None [] [] example_world))) = []"
  by (simp add: run_defs example_invokers example_signature_fields example_signature_provider
      example_externals_def example_world_def example_input_def)

text \<open>The exploded values are built by the three-argument constructor call: they
  carry the constructor's default pane, not the pane of the value they come from.\<close>

lemma exploded_values_have_default_pane:
  "pane_info (cells example_world 0) = PaneInfo 1 \<and>
   map (\<lambda>i. pane_info (in_scope i))
     (invocations (snd (snd (invoke_process_PerWindow example_externals window_invoker 0 None
        None [] [] example_world)))) = [PANE_INFO_UNKNOWN, PANE_INFO_UNKNOWN]"
  by (simp add: run_defs example_invokers example_signature_fields example_externals_def
      example_world_def example_input_def example_processor_def)

section \<open>Faults leaving the bundle driver\<close>

lemma reraise_augmented_tagged:
  "step_name self = Some name \<Longrightarrow> name \<noteq> [] \<Longrightarrow>
   tagged_with_step (reraise_augmented X self exn)"
  by (auto simp: reraise_augmented_def rebuild_def split: option.splits list.splits pyval.splits)

text \<open>What \<^verbatim>\<open>_reraise_augmented\<close> raises, case by case.\<close>

lemma reraise_augmented_cases:
  "(tagged_with_step exn \<or> step_name self = None \<or> step_name self = Some [] \<longrightarrow>
      reraise_augmented X self exn = exn) \<and>
   (\<not> tagged_with_step exn \<and> step_name self = Some name \<and> name \<noteq> [] \<and>
    exn_args exn = PStr s # rest \<and> constructible (exn_kind exn) \<longrightarrow>
      reraise_augmented X self exn =
        \<lparr>exn_kind = exn_kind exn, exn_args = PStr (s @ step_annotation name) # rest,
         tagged_with_step = True\<rparr>) \<and>
   (\<not> tagged_with_step exn \<and> step_name self = Some name \<and> name \<noteq> [] \<and>
    rebuild exn (step_annotation name) = None \<longrightarrow>
      reraise_augmented X self exn =
        \<lparr>exn_kind = RuntimeError,
         exn_args = [PStr (format_exception_only X exn @ step_annotation name)],
         tagged_with_step = True\<rparr>)"
  by (auto simp: reraise_augmented_def rebuild_def split: option.splits)

text \<open>Every fault that leaves one of the guarded operations of a driver with a
  step name is tagged.\<close>

lemma guarded_operations_tag_faults:
  assumes "step_name self = Some name" and "name \<noteq> []"
  shows "fst (process X self a w) = Inl f \<Longrightarrow> tagged_with_step f"
    and "fst (process_user_timer X self spec key window ts w) = Inl f \<Longrightarrow> tagged_with_step f"
    and "fst (start X self w) = Inl f \<Longrightarrow> tagged_with_step f"
    and "fst (finish X self w) = Inl f \<Longrightarrow> tagged_with_step f"
    and "fst (setup_runner X self w) = Inl f \<Longrightarrow> tagged_with_step f"
    and "fst (teardown X self w) = Inl f \<Longrightarrow> tagged_with_step f"
  using reraise_augmented_tagged [OF assms, of X]
  by (auto simp: process_def process_user_timer_def start_def finish_def setup_runner_def
      teardown_def invoke_guarded_def split: prod.splits sum.splits)

lemma splittable_runner_init:
  "DoFnRunner_init example_param_id example_DoFnProcessParams splittable_dofn [] [] []
     (window_fn example_processor) [None, Some ''errors''] (Some ''step'') None False =
   Inr splittable_runner"
proof -
  have sig: "DoFnSignature_init example_param_id example_DoFnProcessParams splittable_dofn =
               Inr (DoFnSignature_fields splittable_dofn)"
    by (simp add: DoFnSignature_init_def validate_def validate_process_def
        validate_bundle_method_def validate_stateful_dofn_def lifecycle_decls_def
        MethodWrapper_init_args_defaults splittable_dofn_def
        plain_dofn_def no_params_def example_DoFnProcessParams_def List.map_filter_simps)
  have op: "\<lparr>window_fn = window_fn example_processor,
              tagged_receivers = List.map_filter id [None, Some ''errors''],
              per_element_output_counter = None\<rparr> = example_processor"
    by (simp add: example_processor_def List.map_filter_simps)
  show ?thesis
    unfolding DoFnRunner_init_def sig op
    by (simp add: create_invoker_def splittable_invoker_init example_signature_fields
        splittable_runner_def example_invokers)
qed

text \<open>
  Claim C4 at a failing input. The driver is the one constructed for
  \<open>splittable_dofn\<close> in the step named \<^verbatim>\<open>step\<close>, and the process method raises
  \<^verbatim>\<open>ValueError('boom')\<close>. Through \<open>process\<close> the fault leaves the driver tagged,
  with the step appended to its message; through \<open>process_with_sized_restriction\<close>
  the same fault leaves the driver as it was raised, untagged and without the step.
\<close>

theorem sized_restriction_fault_not_annotated:
  "fst (process failing_externals splittable_runner 0 example_world) =
     Inl \<lparr>exn_kind = ValueError, exn_args = [PStr (''boom'' @ step_annotation ''step'')],
          tagged_with_step = True\<rparr> \<and>
   fst (process_with_sized_restriction failing_externals splittable_runner 0 sized_world) =
     Inl \<lparr>exn_kind = ValueError, exn_args = [PStr ''boom''], tagged_with_step = False\<rparr>"
  by (simp add: process_def process_with_sized_restriction_def invoke_process_def
      reraise_augmented_def rebuild_def invoker_base_def DoFnInvoker.truncate_def
      unpack_pair.simps run_defs splittable_runner_def example_invokers
      example_signature_fields example_signature_provider failing_externals_def
      example_externals_def example_world_def example_input_def sized_world_def)

end
